theory Spec2Isabelle
  imports Main
begin

section \<open>JavaScript values\<close>

text \<open>
  The bridge moves JSON documents between an agent and the jsondb.cloud REST API.
  A JSON document is a value of \<open>json\<close>; a JavaScript value that may also be
  \<open>undefined\<close> is a \<open>jsval\<close>, with \<open>None\<close> for \<open>undefined\<close>.
  An object is the list of its own properties in insertion order, read with \<open>map_of\<close>
  (JavaScript lists integer-like keys first; here they stay where they were inserted).
  Numbers are the integers that a double holds exactly and that print without an
  exponent, those of absolute value at most \<open>2 ^ 53\<close> (status codes, counts, limits,
  version numbers): no branch of the code depends on a fraction, and \<open>JNumber n\<close>
  with a larger \<open>n\<close> stands for no JavaScript number. Strings are lists of character
  codes below 256.

  A value that is thrown, or with which a promise rejects, is a \<open>jsval\<close> too, and a
  computation that may throw has a result of type \<open>jsval + 'a\<close> with \<open>Inl\<close> the
  thrown value. An \<open>Error\<close> instance is the object holding its \<open>message\<close>.
\<close>

datatype json =
    JNull
  | JBool bool
  | JNumber int
  | JString string
  | JArray "json list"
  | JObject "(string \<times> json) list"

type_synonym jsval = "json option"

definition quoted :: "string \<Rightarrow> string" where
  "quoted s = CHR 0x27 # s @ [CHR 0x27]"

definition js_error :: "string \<Rightarrow> jsval" where
  "js_error msg = Some (JObject [(''message'', JString msg)])"

text \<open>
  \<open>get_prop v k\<close> is the property read \<open>v.k\<close>, for the names the tool code reads
  (\<open>status\<close>, \<open>message\<close>, \<open>error\<close>, \<open>data\<close>, \<open>length\<close>): none of them is inherited
  from \<open>Object.prototype\<close>. Reading a property of \<open>undefined\<close> or \<open>null\<close> throws a
  TypeError.
\<close>

fun get_prop :: "jsval \<Rightarrow> string \<Rightarrow> jsval + jsval" where
  "get_prop None k =
     Inl (js_error (''Cannot read properties of undefined (reading '' @ quoted k @ '')''))"
| "get_prop (Some JNull) k =
     Inl (js_error (''Cannot read properties of null (reading '' @ quoted k @ '')''))"
| "get_prop (Some (JObject kvs)) k = Inr (map_of kvs k)"
| "get_prop (Some (JArray xs)) k =
     Inr (if k = ''length'' then Some (JNumber (int (length xs))) else None)"
| "get_prop (Some (JString s)) k =
     Inr (if k = ''length'' then Some (JNumber (int (length s))) else None)"
| "get_prop (Some (JBool b)) k = Inr None"
| "get_prop (Some (JNumber n)) k = Inr None"

text \<open>
  Truthiness, and the operators \<open>a || b\<close> and \<open>a ?? b\<close>. The right operand of
  every \<open>||\<close> in the tool code is a string, so the result is never \<open>undefined\<close>.
\<close>

fun truthy :: "jsval \<Rightarrow> bool" where
  "truthy None = False"
| "truthy (Some JNull) = False"
| "truthy (Some (JBool b)) = b"
| "truthy (Some (JNumber n)) = (n \<noteq> 0)"
| "truthy (Some (JString s)) = (s \<noteq> [])"
| "truthy (Some (JArray xs)) = True"
| "truthy (Some (JObject kvs)) = True"

definition js_or :: "jsval \<Rightarrow> json \<Rightarrow> json" where
  "js_or a b = (case a of Some x \<Rightarrow> if truthy a then x else b | None \<Rightarrow> b)"

definition js_nullish :: "jsval \<Rightarrow> jsval \<Rightarrow> jsval" where
  "js_nullish a b = (if a = None \<or> a = Some JNull then b else a)"

definition str_or :: "string option \<Rightarrow> string \<Rightarrow> string" where
  "str_or a b = (case a of None \<Rightarrow> b | Some s \<Rightarrow> if s = [] then b else s)"

definition opt_string :: "string option \<Rightarrow> jsval" where
  "opt_string s = map_option JString s"

definition opt_number :: "int option \<Rightarrow> jsval" where
  "opt_number n = map_option JNumber n"

text \<open>
  An object literal \<open>{k1: v1, ...}\<close> as the JSON document it serialises to:
  \<open>JSON.stringify\<close> leaves out the properties whose value is \<open>undefined\<close>.
  \<open>obj_set\<close> is the assignment \<open>o[k] = v\<close> of a defined value to an ordinary
  data property: an existing key keeps its place, a new one goes last.
\<close>

definition mk_obj :: "(string \<times> jsval) list \<Rightarrow> json" where
  "mk_obj kvs = JObject (List.map_filter (\<lambda>(k, v). map_option (Pair k) v) kvs)"

fun obj_set :: "(string \<times> json) list \<Rightarrow> string \<Rightarrow> json \<Rightarrow> (string \<times> json) list" where
  "obj_set [] k v = [(k, v)]"
| "obj_set ((k', v') # kvs) k v =
     (if k' = k then (k, v) # kvs else (k', v') # obj_set kvs k v)"

text \<open>Decimal rendering of a number, as a template literal does for an integer below 1e21.\<close>

fun show_nat :: "nat \<Rightarrow> string" where
  "show_nat n =
     (if n < 10 then [char_of (48 + n)] else show_nat (n div 10) @ [char_of (48 + n mod 10)])"

declare show_nat.simps [simp del]

definition show_int :: "int \<Rightarrow> string" where
  "show_int i = (if i < 0 then CHR ''-'' # show_nat (nat (- i)) else show_nat (nat i))"

section \<open>Response Formatter (\<open>success\<close>, \<open>error\<close>)\<close>

text \<open>
  The text of a content block is \<open>JSON.stringify(v, null, 2)\<close>. The block holds the
  document this text denotes, which is what decoding the text gives back: \<open>None\<close> when
  \<open>v\<close> is \<open>undefined\<close> (then \<open>JSON.stringify\<close> returns \<open>undefined\<close>).
  \<open>isError\<close> is \<open>None\<close> when the response has no such property. The message
  handed to \<open>error\<close> is a string literal or \<open>e.message || "..."\<close>, which can be
  any truthy value.
\<close>

record content_block =
  block_type :: string
  block_text :: jsval

record ToolResponse =
  content :: "content_block list"
  isError :: "bool option"

definition success :: "jsval \<Rightarrow> ToolResponse" where
  "success data = \<lparr>content = [\<lparr>block_type = ''text'', block_text = data\<rparr>], isError = None\<rparr>"

definition error :: "string \<Rightarrow> json \<Rightarrow> string \<Rightarrow> ToolResponse" where
  "error code message suggestion =
     \<lparr>content =
        [\<lparr>block_type = ''text'',
          block_text = Some (JObject [(''error'',
                   JObject [(''code'', JString code),
                            (''message'', message),
                            (''suggestion'', JString suggestion)])])\<rparr>],
      isError = Some True\<rparr>"

section \<open>Process environment and \<open>resolveEnv\<close>\<close>

type_synonym environment = "string \<rightharpoonup> string"

record credentials =
  apiKey :: string
  project :: string
  baseUrl :: string

text \<open>\<open>s.replace(/\/$/, "")\<close>: one slash at the very end of the string is removed.\<close>

definition strip_trailing_slash :: "string \<Rightarrow> string" where
  "strip_trailing_slash s = (if s \<noteq> [] \<and> last s = CHR ''/'' then butlast s else s)"

definition resolveEnv :: "environment \<Rightarrow> credentials" where
  "resolveEnv e =
     \<lparr>apiKey = str_or (e ''JSONDB_API_KEY'') [],
      project = str_or (e ''JSONDB_PROJECT'') (str_or (e ''JSONDB_NAMESPACE'') ''v1''),
      baseUrl = strip_trailing_slash (str_or (e ''JSONDB_BASE_URL'') ''https://api.jsondb.cloud'')\<rparr>"

section \<open>The world of a tool call: environment, network, SDK client\<close>

text \<open>
  \<open>fetch\<close> and the SDK client are outside the bridge. The network answers a request
  with a response or rejects with an \<open>Error\<close>; \<open>res.json()\<close> gives the parsed body or
  rejects with a SyntaxError. The SDK client \<open>db.collection(c).m(args)\<close> resolves with
  any value or rejects with any value; an object handed to it as an argument is given
  by the JSON document it serialises to. Every request handed to \<open>fetch\<close> is recorded
  in \<open>sent\<close>, its body as the document that the serialised text denotes. The
  \<open>method\<close> of a request is the field \<open>http_method\<close>.
\<close>

record RequestInit =
  http_method :: "string option"
  headers :: "(string \<times> string) list"
  body :: jsval

record Response =
  status :: int
  statusText :: string
  json :: "string + json"

datatype fetch_result = Rejected string | Resolved Response

record world =
  env :: environment
  network :: "string \<Rightarrow> RequestInit \<Rightarrow> fetch_result"
  db :: "string \<Rightarrow> string \<Rightarrow> jsval list \<Rightarrow> jsval + jsval"
  sent :: "(string \<times> RequestInit) list"

definition ok :: "Response \<Rightarrow> bool" where
  "ok r = (200 \<le> status r \<and> status r \<le> 299)"

definition res_json :: "Response \<Rightarrow> jsval + jsval" where
  "res_json r = (case json r of Inl m \<Rightarrow> Inl (js_error m) | Inr v \<Rightarrow> Inr (Some v))"

definition fetch :: "string \<Rightarrow> RequestInit \<Rightarrow> world \<Rightarrow> fetch_result \<times> world" where
  "fetch url opts w = (network w url opts, w\<lparr>sent := sent w @ [(url, opts)]\<rparr>)"

definition sdk :: "string \<Rightarrow> string \<Rightarrow> jsval list \<Rightarrow> world \<Rightarrow> (jsval + jsval) \<times> world" where
  "sdk collection m args w = (db w collection m args, w)"

text \<open>
  The failure raised for a response that is not ok:
  \<open>const b = await res.json().catch(() => ({})); throw {status: res.status, message: b.error || res.statusText}\<close>.
\<close>

definition upstream_failure :: "Response \<Rightarrow> jsval" where
  "upstream_failure r =
     (let b = (case res_json r of Inl e \<Rightarrow> Some (JObject []) | Inr v \<Rightarrow> v)
      in case get_prop b ''error'' of
           Inl e \<Rightarrow> e
         | Inr er \<Rightarrow>
             Some (mk_obj [(''status'', Some (JNumber (status r))),
                           (''message'', Some (js_or er (JString (statusText r))))]))"

section \<open>REST Client (\<open>apiFetch\<close>, \<open>webhookFetch\<close>, \<open>versionFetch\<close>)\<close>

definition apiFetch ::
  "string \<Rightarrow> string \<Rightarrow> string option \<Rightarrow> jsval \<Rightarrow> world \<Rightarrow> (jsval + jsval) \<times> world" where
  "apiFetch url key meth b w =
     (let m = (case meth of None \<Rightarrow> ''GET'' | Some x \<Rightarrow> x);
          opts = \<lparr>http_method = Some m,
                  headers = [(''Authorization'', ''Bearer '' @ key),
                             (''Content-Type'', ''application/json'')],
                  body = (if b \<noteq> None \<and> m \<in> set [''POST'', ''PUT'', ''PATCH''] then b else None)\<rparr>
      in case fetch url opts w of
           (Rejected e, w') \<Rightarrow> (Inl (js_error e), w')
         | (Resolved res, w') \<Rightarrow>
             if \<not> ok res then (Inl (upstream_failure res), w')
             else if status res = 204 then (Inr (Some (JObject [(''ok'', JBool True)])), w')
             else (res_json res, w'))"

definition webhookFetch ::
  "string \<Rightarrow> string \<Rightarrow> string option \<Rightarrow> jsval \<Rightarrow> world \<Rightarrow> (jsval + jsval) \<times> world" where
  "webhookFetch url key meth b w =
     (let m = (case meth of None \<Rightarrow> ''GET'' | Some x \<Rightarrow> x);
          opts = \<lparr>http_method = Some m,
                  headers = [(''Authorization'', ''Bearer '' @ key),
                             (''Content-Type'', ''application/json'')],
                  body = (if b \<noteq> None \<and> m \<in> set [''POST'', ''PUT'', ''PATCH''] then b else None)\<rparr>
      in case fetch url opts w of
           (Rejected e, w') \<Rightarrow> (Inl (js_error e), w')
         | (Resolved res, w') \<Rightarrow>
             if \<not> ok res then (Inl (upstream_failure res), w')
             else if status res = 204 then (Inr (Some (JObject [(''ok'', JBool True)])), w')
             else (res_json res, w'))"

text \<open>
  \<open>versionFetch(url, apiKey, opts = {})\<close> is called with no \<open>opts\<close> or with
  \<open>{method: "POST"}\<close>; the argument here is that optional method.
\<close>

definition versionFetch ::
  "string \<Rightarrow> string \<Rightarrow> string option \<Rightarrow> world \<Rightarrow> (jsval + jsval) \<times> world" where
  "versionFetch url key meth w =
     (let opts = \<lparr>http_method = meth,
                  headers = [(''Authorization'', ''Bearer '' @ key),
                             (''Content-Type'', ''application/json'')],
                  body = None\<rparr>
      in case fetch url opts w of
           (Rejected e, w') \<Rightarrow> (Inl (js_error e), w')
         | (Resolved res, w') \<Rightarrow>
             if \<not> ok res then (Inl (upstream_failure res), w')
             else if status res = 204 then (Inr (Some (JObject [(''ok'', JBool True)])), w')
             else (res_json res, w'))"

section \<open>Exceptions: \<open>try\<close>/\<open>catch\<close> and \<open>return error(...)\<close>\<close>

text \<open>
  A handler is \<open>async (args) => { try { ... } catch (err) { ... } }\<close>. Its \<open>try\<close> block
  runs in the world and either returns a response or throws; its \<open>catch\<close> block is
  given the thrown value. The \<open>catch\<close> block throws in turn when it reads a property
  of a thrown \<open>undefined\<close> or \<open>null\<close>.
\<close>

definition e_bind :: "jsval + 'a \<Rightarrow> ('a \<Rightarrow> jsval + 'b) \<Rightarrow> jsval + 'b" where
  "e_bind r k = (case r of Inl e \<Rightarrow> Inl e | Inr v \<Rightarrow> k v)"

definition await :: "(jsval + 'a) \<times> world \<Rightarrow> ('a \<Rightarrow> jsval + 'b) \<Rightarrow> (jsval + 'b) \<times> world" where
  "await r k = (case r of (x, w) \<Rightarrow> (e_bind x k, w))"

definition try_catch ::
  "(jsval + 'a) \<times> world \<Rightarrow> (jsval \<Rightarrow> jsval + 'a) \<Rightarrow> (jsval + 'a) \<times> world" where
  "try_catch r h = (case r of (Inl e, w) \<Rightarrow> (h e, w) | (Inr v, w) \<Rightarrow> (Inr v, w))"

text \<open>
  \<open>return error(code, "message", "suggestion")\<close> and
  \<open>return error(code, e.message || "fallback", "suggestion")\<close>.
\<close>

definition return_error :: "string \<Rightarrow> string \<Rightarrow> string \<Rightarrow> jsval + ToolResponse" where
  "return_error code message suggestion = Inr (error code (JString message) suggestion)"

definition return_error_or :: "string \<Rightarrow> jsval \<Rightarrow> string \<Rightarrow> string \<Rightarrow> jsval + ToolResponse" where
  "return_error_or code err fallback suggestion =
     e_bind (get_prop err ''message'')
       (\<lambda>m. Inr (error code (js_or m (JString fallback)) suggestion))"

definition return_success :: "jsval \<Rightarrow> jsval + ToolResponse" where
  "return_success data = Inr (success data)"

text \<open>An optional string argument inside a template literal: \<open>`${id}`\<close>.\<close>

definition template_opt :: "string option \<Rightarrow> string" where
  "template_opt s = (case s of Some x \<Rightarrow> x | None \<Rightarrow> ''undefined'')"

section \<open>Reading a response\<close>

text \<open>
  A response as its caller reads it: \<open>JSON.parse(result.content[0].text)\<close>, and the
  \<open>error.code\<close> of the decoded document.
\<close>

definition decoded :: "ToolResponse \<Rightarrow> jsval" where
  "decoded r = (case content r of b # bs \<Rightarrow> block_text b | [] \<Rightarrow> None)"

definition error_code :: "ToolResponse \<Rightarrow> jsval" where
  "error_code r =
     (case get_prop (decoded r) ''error'' of
        Inr e \<Rightarrow> (case get_prop e ''code'' of Inr c \<Rightarrow> c | Inl x \<Rightarrow> None)
      | Inl x \<Rightarrow> None)"

definition nullish :: "jsval \<Rightarrow> bool" where
  "nullish v = (v = None \<or> v = Some JNull)"

text \<open>
  The two shapes of a response: one content block and no error flag; one content block
  holding \<open>{"error": {"code", "message", "suggestion"}}\<close> and the error flag set.
\<close>

definition has_error_payload :: "ToolResponse \<Rightarrow> bool" where
  "has_error_payload r =
     (case decoded r of
        Some (JObject [(k, JObject kvs)]) \<Rightarrow>
          k = ''error'' \<and> map fst kvs = [''code'', ''message'', ''suggestion'']
      | _ \<Rightarrow> False)"

definition success_shape :: "ToolResponse \<Rightarrow> bool" where
  "success_shape r = (length (content r) = 1 \<and> isError r = None)"

definition error_shape :: "ToolResponse \<Rightarrow> bool" where
  "error_shape r = (length (content r) = 1 \<and> isError r = Some True \<and> has_error_payload r)"

definition error_with_code :: "string \<Rightarrow> ToolResponse \<Rightarrow> bool" where
  "error_with_code code r = (error_shape r \<and> error_code r = Some (JString code))"

text \<open>
  A property of what a computation returns, and of what it throws.
\<close>

definition returns :: "('r \<Rightarrow> bool) \<Rightarrow> jsval + 'r \<Rightarrow> bool" where
  "returns P x = (case x of Inr r \<Rightarrow> P r | Inl e \<Rightarrow> True)"

definition throws :: "(jsval \<Rightarrow> bool) \<Rightarrow> jsval + 'r \<Rightarrow> bool" where
  "throws P x = (case x of Inl e \<Rightarrow> P e | Inr r \<Rightarrow> True)"

text \<open>A computation that returns a value with a given property.\<close>

definition yields :: "('r \<Rightarrow> bool) \<Rightarrow> jsval + 'r \<Rightarrow> bool" where
  "yields P x = (case x of Inr r \<Rightarrow> P r | Inl e \<Rightarrow> False)"

text \<open>
  The Error Classifier as the specification describes it: the code that the decision
  table gives for the status of the failure, and the fallback code when the failure
  has no status or the table has no entry for it.
\<close>

definition classify_with :: "(int \<times> string) list \<Rightarrow> string \<Rightarrow> jsval \<Rightarrow> string" where
  "classify_with table fallback e =
     (case get_prop e ''status'' of
        Inr (Some (JNumber n)) \<Rightarrow>
          (case map_of table n of Some code \<Rightarrow> code | None \<Rightarrow> fallback)
      | _ \<Rightarrow> fallback)"

section \<open>Filter Compiler (\<open>buildFilterObject\<close>)\<close>

record filter_spec =
  field :: string
  operator :: string
  filter_value :: json

definition opMap :: "(string \<times> string) list" where
  "opMap =
     [(''eq'', ''$eq''), (''neq'', ''$neq''), (''gt'', ''$gt''), (''gte'', ''$gte''),
      (''lt'', ''$lt''), (''lte'', ''$lte''), (''contains'', ''$contains''),
      (''in'', ''$in''), (''exists'', ''$exists'')]"

text \<open>
  \<open>opMap\<close> and \<open>filterObj\<close> are object literals, so they inherit from
  \<open>Object.prototype\<close>. The read \<open>opMap[f.operator]\<close> finds the inherited member when
  the operator is one of its names, and that member (a function, or the prototype
  object itself for \<open>__proto__\<close>) is truthy; as the computed key of
  \<open>{ [sdkOp]: f.value }\<close> it is converted to a string, which Node renders as below.
  The write \<open>filterObj["__proto__"] = v\<close> goes to the inherited setter and creates no
  own property. \<open>buildFilterObject\<close> returns the own properties of \<open>filterObj\<close>.
\<close>

definition object_prototype_members :: "string list" where
  "object_prototype_members =
     [''constructor'', ''__defineGetter__'', ''__defineSetter__'', ''hasOwnProperty'',
      ''__lookupGetter__'', ''__lookupSetter__'', ''isPrototypeOf'',
      ''propertyIsEnumerable'', ''toString'', ''valueOf'', ''__proto__'',
      ''toLocaleString'']"

definition inherited_key :: "string \<Rightarrow> string" where
  "inherited_key k =
     (if k = ''__proto__'' then ''[object Object]''
      else ''function '' @ (if k = ''constructor'' then ''Object'' else k)
             @ ''() { [native code] }'')"

definition opMap_get :: "string \<Rightarrow> string option" where
  "opMap_get k =
     (case map_of opMap k of
        Some v \<Rightarrow> Some v
      | None \<Rightarrow> if k \<in> set object_prototype_members then Some (inherited_key k) else None)"

definition filter_assign ::
  "(string \<times> json) list \<Rightarrow> string \<Rightarrow> json \<Rightarrow> (string \<times> json) list" where
  "filter_assign filterObj k v = (if k = ''__proto__'' then filterObj else obj_set filterObj k v)"

fun buildFilterObject_loop ::
  "filter_spec list \<Rightarrow> (string \<times> json) list \<Rightarrow> (string \<times> json) list" where
  "buildFilterObject_loop [] filterObj = filterObj"
| "buildFilterObject_loop (f # fs) filterObj =
     buildFilterObject_loop fs
       (if operator f = ''eq'' then filter_assign filterObj (field f) (filter_value f)
        else case opMap_get (operator f) of
               Some sdkOp \<Rightarrow> filter_assign filterObj (field f) (JObject [(sdkOp, filter_value f)])
             | None \<Rightarrow> filter_assign filterObj (field f) (filter_value f))"

definition buildFilterObject :: "filter_spec list \<Rightarrow> (string \<times> json) list" where
  "buildFilterObject filters = buildFilterObject_loop filters []"

text \<open>
  The reference definition of the compiler, in the words of the specification: the raw
  value for \<open>eq\<close>, the single-key object \<open>{"$" + operator: value}\<close> for the eight other
  operators of the fixed set, the raw value for any other operator; the empty mapping
  for the empty list, and a later entry on a field replaces an earlier one.
\<close>

definition reference_value :: "filter_spec \<Rightarrow> json" where
  "reference_value f =
     (if operator f = ''eq'' then filter_value f
      else if operator f \<in> set [''neq'', ''gt'', ''gte'', ''lt'', ''lte'', ''contains'', ''in'', ''exists'']
        then JObject [(''$'' @ operator f, filter_value f)]
      else filter_value f)"

definition reference_compile :: "filter_spec list \<Rightarrow> (string \<rightharpoonup> json)" where
  "reference_compile filters = foldl (\<lambda>m f. m(field f \<mapsto> reference_value f)) Map.empty filters"

section \<open>Document tools (\<open>registerDocumentTools\<close>)\<close>

text \<open>
  Every tool is modelled by its \<open>try\<close> block and its \<open>catch\<close> block. Arguments
  have the types their declared shapes validate: a record is an object, an optional
  argument an \<open>option\<close>. The argument \<open>id\<close> is written \<open>doc_id\<close>, \<open>filter\<close> is
  \<open>filter_arg\<close> and \<open>sort\<close> is \<open>sort_arg\<close>.
\<close>

definition create_document_try ::
  "string \<Rightarrow> (string \<times> json) list \<Rightarrow> string option \<Rightarrow> world \<Rightarrow> (jsval + ToolResponse) \<times> world" where
  "create_document_try collection data doc_id w =
     await (sdk collection ''create''
              [Some (JObject data),
               if truthy (opt_string doc_id) then Some (mk_obj [(''id'', opt_string doc_id)]) else None] w)
       return_success"

definition get_document_try ::
  "string \<Rightarrow> string \<Rightarrow> world \<Rightarrow> (jsval + ToolResponse) \<times> world" where
  "get_document_try collection doc_id w =
     await (sdk collection ''get'' [Some (JString doc_id)] w) return_success"

definition list_documents_try ::
  "string \<Rightarrow> (string \<times> json) list option \<Rightarrow> string option \<Rightarrow> int option \<Rightarrow> int option
     \<Rightarrow> string list option \<Rightarrow> world \<Rightarrow> (jsval + ToolResponse) \<times> world" where
  "list_documents_try collection filter_arg sort_arg limit offset select w =
     await (sdk collection ''list''
              [Some (mk_obj [(''filter'', map_option JObject filter_arg),
                             (''sort'', opt_string sort_arg),
                             (''limit'', opt_number limit),
                             (''offset'', opt_number offset),
                             (''select'', map_option (\<lambda>xs. JArray (map JString xs)) select)])] w)
       return_success"

definition update_document_try ::
  "string \<Rightarrow> string \<Rightarrow> (string \<times> json) list \<Rightarrow> world \<Rightarrow> (jsval + ToolResponse) \<times> world" where
  "update_document_try collection doc_id data w =
     await (sdk collection ''update'' [Some (JString doc_id), Some (JObject data)] w) return_success"

definition patch_document_try ::
  "string \<Rightarrow> string \<Rightarrow> (string \<times> json) list \<Rightarrow> world \<Rightarrow> (jsval + ToolResponse) \<times> world" where
  "patch_document_try collection doc_id data w =
     await (sdk collection ''patch'' [Some (JString doc_id), Some (JObject data)] w) return_success"

definition delete_document_try ::
  "string \<Rightarrow> string \<Rightarrow> world \<Rightarrow> (jsval + ToolResponse) \<times> world" where
  "delete_document_try collection doc_id w =
     await (sdk collection ''delete'' [Some (JString doc_id)] w)
       (\<lambda>_. return_success
          (Some (mk_obj [(''deleted'', Some (JBool True)),
                         (''_id'', Some (JString doc_id)),
                         (''collection'', Some (JString collection))])))"

definition count_documents_try ::
  "string \<Rightarrow> (string \<times> json) list option \<Rightarrow> world \<Rightarrow> (jsval + ToolResponse) \<times> world" where
  "count_documents_try collection filter_arg w =
     await (sdk collection ''count'' [map_option JObject filter_arg] w)
       (\<lambda>count. return_success
          (Some (mk_obj [(''collection'', Some (JString collection)), (''count'', count)])))"

definition json_patch_document_try ::
  "string \<Rightarrow> string \<Rightarrow> json list \<Rightarrow> world \<Rightarrow> (jsval + ToolResponse) \<times> world" where
  "json_patch_document_try collection doc_id operations w =
     await (sdk collection ''jsonPatch'' [Some (JString doc_id), Some (JArray operations)] w)
       return_success"

definition create_document_catch :: "string \<Rightarrow> jsval \<Rightarrow> jsval + ToolResponse" where
  "create_document_catch collection err =
     e_bind (get_prop err ''status'') (\<lambda>st.
       if st = Some (JNumber 409) then
          return_error ''DOCUMENT_CONFLICT''
            (''A document with this ID already exists in collection '' @ quoted collection @ ''.'')
            (''Use update_document to replace an existing document, or omit the '' @ quoted ''id'' @ '' parameter to auto-generate a unique ID.'')
       else if st = Some (JNumber 413) then
          return_error ''DOCUMENT_TOO_LARGE''
            (''The document exceeds the maximum allowed size.'')
            (''Reduce the document size. Free plans allow up to 16 KB per document, Pro plans allow up to 1 MB.'')
       else if st = Some (JNumber 400) then
          return_error_or ''VALIDATION_ERROR'' err
            (''The document failed schema validation for collection '' @ quoted collection @ ''.'')
            (''Use get_schema({ collection: '' @ quoted collection @ '' }) to see the required schema, then adjust your document to match.'')
       else
          return_error_or ''CREATE_FAILED'' err
            (''Failed to create document'')
            (''Check that the collection name '' @ quoted collection @ '' is valid and the data is a valid JSON object.''))"

definition get_document_catch :: "string \<Rightarrow> string \<Rightarrow> jsval \<Rightarrow> jsval + ToolResponse" where
  "get_document_catch collection doc_id err =
     e_bind (get_prop err ''status'') (\<lambda>st.
       if st = Some (JNumber 404) then
          return_error ''DOCUMENT_NOT_FOUND''
            (''Document '' @ quoted doc_id @ '' not found in collection '' @ quoted collection @ ''.'')
            (''Use list_documents({ collection: '' @ quoted collection @ '' }) to see available documents, or check that the ID is correct.'')
       else
          return_error_or ''GET_FAILED'' err
            (''Failed to get document'')
            (''Verify that the collection '' @ quoted collection @ '' exists and the document ID '' @ quoted doc_id @ '' is correct.''))"

definition list_documents_catch :: "string \<Rightarrow> jsval \<Rightarrow> jsval + ToolResponse" where
  "list_documents_catch collection err =
     return_error_or ''LIST_FAILED'' err
       (''Failed to list documents in collection '' @ quoted collection @ ''.'')
       (''Verify the collection name is correct. Use list_collections to see available collections.'')"

definition update_document_catch :: "string \<Rightarrow> string \<Rightarrow> jsval \<Rightarrow> jsval + ToolResponse" where
  "update_document_catch collection doc_id err =
     e_bind (get_prop err ''status'') (\<lambda>st.
       if st = Some (JNumber 404) then
          return_error ''DOCUMENT_NOT_FOUND''
            (''Document '' @ quoted doc_id @ '' not found in collection '' @ quoted collection @ ''.'')
            (''Use list_documents({ collection: '' @ quoted collection @ '' }) to see available documents. To create a new document, use create_document instead.'')
       else if st = Some (JNumber 400) then
          return_error_or ''VALIDATION_ERROR'' err
            (''The document failed schema validation.'')
            (''Use get_schema({ collection: '' @ quoted collection @ '' }) to see the required schema, then adjust your document to match.'')
       else
          return_error_or ''UPDATE_FAILED'' err
            (''Failed to update document'')
            (''Verify that collection '' @ quoted collection @ '' and document ID '' @ quoted doc_id @ '' are correct.''))"

definition patch_document_catch :: "string \<Rightarrow> string \<Rightarrow> jsval \<Rightarrow> jsval + ToolResponse" where
  "patch_document_catch collection doc_id err =
     e_bind (get_prop err ''status'') (\<lambda>st.
       if st = Some (JNumber 404) then
          return_error ''DOCUMENT_NOT_FOUND''
            (''Document '' @ quoted doc_id @ '' not found in collection '' @ quoted collection @ ''.'')
            (''Use list_documents({ collection: '' @ quoted collection @ '' }) to see available documents. To create a new document, use create_document instead.'')
       else if st = Some (JNumber 400) then
          return_error_or ''VALIDATION_ERROR'' err
            (''The patched document failed schema validation.'')
            (''Use get_schema({ collection: '' @ quoted collection @ '' }) to see the required schema. Ensure the patched result conforms to it.'')
       else
          return_error_or ''PATCH_FAILED'' err
            (''Failed to patch document'')
            (''Verify that collection '' @ quoted collection @ '' and document ID '' @ quoted doc_id @ '' are correct.''))"

definition delete_document_catch :: "string \<Rightarrow> string \<Rightarrow> jsval \<Rightarrow> jsval + ToolResponse" where
  "delete_document_catch collection doc_id err =
     e_bind (get_prop err ''status'') (\<lambda>st.
       if st = Some (JNumber 404) then
          return_error ''DOCUMENT_NOT_FOUND''
            (''Document '' @ quoted doc_id @ '' not found in collection '' @ quoted collection @ ''.'')
            (''The document may have already been deleted. Use list_documents({ collection: '' @ quoted collection @ '' }) to see current documents.'')
       else
          return_error_or ''DELETE_FAILED'' err
            (''Failed to delete document'')
            (''Verify that collection '' @ quoted collection @ '' and document ID '' @ quoted doc_id @ '' are correct.''))"

definition count_documents_catch :: "string \<Rightarrow> jsval \<Rightarrow> jsval + ToolResponse" where
  "count_documents_catch collection err =
     return_error_or ''COUNT_FAILED'' err
       (''Failed to count documents in collection '' @ quoted collection @ ''.'')
       (''Verify the collection name is correct. Use list_collections to see available collections.'')"

definition json_patch_document_catch :: "string \<Rightarrow> string \<Rightarrow> jsval \<Rightarrow> jsval + ToolResponse" where
  "json_patch_document_catch collection doc_id err =
     e_bind (get_prop err ''status'') (\<lambda>st.
       if st = Some (JNumber 404) then
          return_error ''DOCUMENT_NOT_FOUND''
            (''Document '' @ quoted doc_id @ '' not found in collection '' @ quoted collection @ ''.'')
            (''Use list_documents({ collection: '' @ quoted collection @ '' }) to see available documents.'')
       else if st = Some (JNumber 409) then
          return_error_or ''PATCH_CONFLICT'' err
            (''A '' @ quoted ''test'' @ '' operation failed or a path conflict occurred.'')
            (''Review the patch operations. A '' @ quoted ''test'' @ '' op asserts a value must match before applying changes.'')
       else if st = Some (JNumber 400) then
          return_error_or ''VALIDATION_ERROR'' err
            (''The patched document failed schema validation.'')
            (''Use get_schema({ collection: '' @ quoted collection @ '' }) to review the required schema.'')
       else
          return_error_or ''JSON_PATCH_FAILED'' err
            (''Failed to apply JSON Patch'')
            (''Verify the patch operations are valid RFC 6902. Paths must use JSON Pointer format (e.g., '' @ quoted ''/field'' @ '', '' @ quoted ''/nested/key'' @ '').''))"


section \<open>Query strings (\<open>URLSearchParams\<close>, \<open>String\<close>, \<open>Object.entries\<close>)\<close>

text \<open>
  \<open>params.set(k, v)\<close> replaces the value of a name that is present and appends a new
  name; \<open>params.toString()\<close> is the \<open>application/x-www-form-urlencoded\<close>
  serialisation: letters, digits and \<open>*-._\<close> stay, a space becomes \<open>+\<close>, every
  other byte of the UTF-8 encoding is percent-encoded. A character code from 128 to
  255 has the two UTF-8 bytes \<open>0xC0 + code div 64\<close> and \<open>0x80 + code mod 64\<close>.
\<close>

definition hex_digit :: "nat \<Rightarrow> char" where
  "hex_digit n = (if n < 10 then char_of (48 + n) else char_of (55 + n))"

definition percent_byte :: "nat \<Rightarrow> string" where
  "percent_byte n = [CHR ''%'', hex_digit (n div 16), hex_digit (n mod 16)]"

definition urlencode_char :: "char \<Rightarrow> string" where
  "urlencode_char c =
     (let n = (of_char c :: nat)
      in if (48 \<le> n \<and> n \<le> 57) \<or> (65 \<le> n \<and> n \<le> 90) \<or> (97 \<le> n \<and> n \<le> 122)
            \<or> c \<in> set ''*-._'' then [c]
         else if c = CHR '' '' then ''+''
         else if n < 128 then percent_byte n
         else percent_byte (192 + n div 64) @ percent_byte (128 + n mod 64))"

definition urlencode :: "string \<Rightarrow> string" where
  "urlencode s = concat (map urlencode_char s)"

fun join_with :: "string \<Rightarrow> string list \<Rightarrow> string" where
  "join_with sep [] = []"
| "join_with sep [x] = x"
| "join_with sep (x # y # ys) = x @ sep @ join_with sep (y # ys)"

fun params_set :: "(string \<times> string) list \<Rightarrow> string \<Rightarrow> string \<Rightarrow> (string \<times> string) list" where
  "params_set [] k v = [(k, v)]"
| "params_set ((k', v') # ps) k v =
     (if k' = k then (k, v) # ps else (k', v') # params_set ps k v)"

definition params_toString :: "(string \<times> string) list \<Rightarrow> string" where
  "params_toString ps = join_with ''&'' (map (\<lambda>(k, v). urlencode k @ ''='' @ urlencode v) ps)"

definition query_suffix :: "string \<Rightarrow> string" where
  "query_suffix qs = (if qs \<noteq> [] then ''?'' @ qs else [])"

text \<open>
  \<open>String(v)\<close> of a JSON value. An array is joined with commas, a \<open>null\<close> element
  giving the empty string. An object gives \<open>[object Object]\<close>, unless it has an own
  property \<open>toString\<close>: that property is not callable, the inherited \<open>valueOf\<close>
  returns the object itself, and the conversion throws a TypeError.
\<close>

definition cannot_convert :: jsval where
  "cannot_convert = js_error ''Cannot convert object to primitive value''"

fun js_to_string :: "json \<Rightarrow> jsval + string"
  and js_strings :: "json list \<Rightarrow> jsval + string list" where
  "js_to_string JNull = Inr ''null''"
| "js_to_string (JBool b) = Inr (if b then ''true'' else ''false'')"
| "js_to_string (JNumber n) = Inr (show_int n)"
| "js_to_string (JString s) = Inr s"
| "js_to_string (JArray xs) =
     (case js_strings xs of Inl e \<Rightarrow> Inl e | Inr ss \<Rightarrow> Inr (join_with '','' ss))"
| "js_to_string (JObject kvs) =
     (if ''toString'' \<in> set (map fst kvs)
      then Inl cannot_convert
      else Inr ''[object Object]'')"
| "js_strings [] = Inr []"
| "js_strings (x # xs) =
     (case (if x = JNull then Inr [] else js_to_string x) of
        Inl e \<Rightarrow> Inl e
      | Inr s \<Rightarrow> (case js_strings xs of Inl e \<Rightarrow> Inl e | Inr ss \<Rightarrow> Inr (s # ss)))"

text \<open>The values that \<open>String\<close> converts without throwing.\<close>

fun stringable :: "json \<Rightarrow> bool" where
  "stringable (JObject kvs) = (''toString'' \<notin> set (map fst kvs))"
| "stringable (JArray xs) = list_all stringable xs"
| "stringable v = True"

text \<open>The entries of an object or an array (\<open>Object.entries\<close>).\<close>

definition entries :: "json \<Rightarrow> (string \<times> json) list" where
  "entries v =
     (case v of
        JObject kvs \<Rightarrow> kvs
      | JArray xs \<Rightarrow> zip (map show_nat [0..<length xs]) xs
      | _ \<Rightarrow> [])"

definition is_array :: "jsval \<Rightarrow> bool" where
  "is_array v = (case v of Some (JArray xs) \<Rightarrow> True | _ \<Rightarrow> False)"

section \<open>Collection tools (\<open>registerCollectionTools\<close>)\<close>

text \<open>
  These handlers call \<open>fetch\<close> themselves. They read the three settings from
  \<open>process.env\<close> with the expressions of \<open>resolveEnv\<close>, and raise the same failure
  for a response that is not ok.
\<close>

definition list_collections_try :: "world \<Rightarrow> (jsval + ToolResponse) \<times> world" where
  "list_collections_try w =
     (let c = resolveEnv (env w)
      in case fetch (baseUrl c @ ''/'' @ project c)
                \<lparr>http_method = None,
                 headers = [(''Authorization'', ''Bearer '' @ apiKey c),
                            (''Content-Type'', ''application/json'')],
                 body = None\<rparr> w of
           (Rejected e, w') \<Rightarrow> (Inl (js_error e), w')
         | (Resolved res, w') \<Rightarrow>
             if \<not> ok res then (Inl (upstream_failure res), w')
             else (e_bind (res_json res) return_success, w'))"

definition search_documents_try ::
  "string \<Rightarrow> filter_spec list \<Rightarrow> string option \<Rightarrow> int option \<Rightarrow> int option \<Rightarrow> world
     \<Rightarrow> (jsval + ToolResponse) \<times> world" where
  "search_documents_try collection filters sort_arg limit offset w =
     (let filterObj = buildFilterObject filters
      in await (sdk collection ''list''
                  [Some (mk_obj [(''filter'', Some (JObject filterObj)),
                                 (''sort'', opt_string sort_arg),
                                 (''limit'', opt_number limit),
                                 (''offset'', opt_number offset)])] w)
           return_success)"

definition import_documents_try ::
  "string \<Rightarrow> (string \<times> json) list list \<Rightarrow> string option \<Rightarrow> string option \<Rightarrow> world
     \<Rightarrow> (jsval + ToolResponse) \<times> world" where
  "import_documents_try collection documents onConflict idField w =
     (let c = resolveEnv (env w);
          params0 = [];
          params1 = (case onConflict of
                       Some x \<Rightarrow> if x \<noteq> [] then params_set params0 ''onConflict'' x else params0
                     | None \<Rightarrow> params0);
          params2 = (case idField of
                       Some x \<Rightarrow> if x \<noteq> [] then params_set params1 ''idField'' x else params1
                     | None \<Rightarrow> params1);
          qs = params_toString params2
      in case fetch (baseUrl c @ ''/'' @ project c @ ''/'' @ collection @ ''/_import'' @ query_suffix qs)
                \<lparr>http_method = Some ''POST'',
                 headers = [(''Authorization'', ''Bearer '' @ apiKey c),
                            (''Content-Type'', ''application/json'')],
                 body = Some (JArray (map JObject documents))\<rparr> w of
           (Rejected e, w') \<Rightarrow> (Inl (js_error e), w')
         | (Resolved res, w') \<Rightarrow>
             if \<not> ok res then (Inl (upstream_failure res), w')
             else (e_bind (res_json res) return_success, w'))"

text \<open>
  The query of an export: a filter value that is an object (or an array) contributes
  \<open>filter[field][op]\<close> for each of its entries, with a leading \<open>$\<close> of \<open>op\<close>
  removed; any other value contributes \<open>filter[field]\<close>.
\<close>

definition clean_op :: "string \<Rightarrow> string" where
  "clean_op op = (case op of c # cs \<Rightarrow> if c = CHR ''$'' then cs else op | [] \<Rightarrow> op)"

definition is_object_value :: "json \<Rightarrow> bool" where
  "is_object_value v = (case v of JObject kvs \<Rightarrow> True | JArray xs \<Rightarrow> True | _ \<Rightarrow> False)"

fun export_ops ::
  "string \<Rightarrow> (string \<times> json) list \<Rightarrow> (string \<times> string) list
     \<Rightarrow> jsval + (string \<times> string) list" where
  "export_ops fld [] params = Inr params"
| "export_ops fld ((op, x) # ops) params =
     e_bind (js_to_string x)
       (\<lambda>s. export_ops fld ops
              (params_set params (''filter['' @ fld @ '']['' @ clean_op op @ '']'') s))"

fun export_fields ::
  "(string \<times> json) list \<Rightarrow> (string \<times> string) list \<Rightarrow> jsval + (string \<times> string) list" where
  "export_fields [] params = Inr params"
| "export_fields ((fld, v) # fl) params =
     (if is_object_value v
      then e_bind (export_ops fld (entries v) params) (export_fields fl)
      else e_bind (js_to_string v)
             (\<lambda>s. export_fields fl (params_set params (''filter['' @ fld @ '']'') s)))"

definition export_params :: "(string \<times> json) list option \<Rightarrow> jsval + (string \<times> string) list" where
  "export_params filter_arg =
     (case filter_arg of None \<Rightarrow> Inr [] | Some fl \<Rightarrow> export_fields fl [])"

text \<open>
  The filters whose query can be built: no entry of an object (or array) among the
  filter values is a value on which \<open>String\<close> throws.
\<close>

definition renderable_filter :: "(string \<times> json) list option \<Rightarrow> bool" where
  "renderable_filter filter_arg =
     (case filter_arg of
        None \<Rightarrow> True
      | Some fl \<Rightarrow> list_all (\<lambda>(fld, v). list_all (\<lambda>(op, x). stringable x) (entries v)) fl)"

text \<open>
  The normalisation of the exported payload:
  \<open>const documents = Array.isArray(data) ? data : (data.data ?? []);\<close>
  \<open>return success({ collection, count: documents.length, documents });\<close>
\<close>

definition export_normalize :: "string \<Rightarrow> jsval \<Rightarrow> jsval + ToolResponse" where
  "export_normalize collection data =
     e_bind (if is_array data then Inr data
             else e_bind (get_prop data ''data'') (\<lambda>d. Inr (js_nullish d (Some (JArray [])))))
       (\<lambda>documents.
          e_bind (get_prop documents ''length'')
            (\<lambda>count. return_success
               (Some (mk_obj [(''collection'', Some (JString collection)),
                              (''count'', count),
                              (''documents'', documents)]))))"

definition export_collection_try ::
  "string \<Rightarrow> (string \<times> json) list option \<Rightarrow> world \<Rightarrow> (jsval + ToolResponse) \<times> world" where
  "export_collection_try collection filter_arg w =
     (let c = resolveEnv (env w)
      in case export_params filter_arg of
           Inl e \<Rightarrow> (Inl e, w)
         | Inr params \<Rightarrow>
             (let qs = params_toString params
              in case fetch (baseUrl c @ ''/'' @ project c @ ''/'' @ collection @ ''/_export''
                               @ query_suffix qs)
                        \<lparr>http_method = None,
                         headers = [(''Authorization'', ''Bearer '' @ apiKey c),
                                    (''Accept'', ''application/json'')],
                         body = None\<rparr> w of
                   (Rejected e, w') \<Rightarrow> (Inl (js_error e), w')
                 | (Resolved res, w') \<Rightarrow>
                     if \<not> ok res then (Inl (upstream_failure res), w')
                     else (e_bind (res_json res) (export_normalize collection), w')))"

definition list_collections_catch :: "jsval \<Rightarrow> jsval + ToolResponse" where
  "list_collections_catch err =
     return_error_or ''LIST_COLLECTIONS_FAILED'' err
       (''Failed to list collections.'')
       (''Verify that the JSONDB_API_KEY and JSONDB_PROJECT environment variables are set correctly.'')"

definition search_documents_catch :: "string \<Rightarrow> jsval \<Rightarrow> jsval + ToolResponse" where
  "search_documents_catch collection err =
     return_error_or ''SEARCH_FAILED'' err
       (''Failed to search documents in collection '' @ quoted collection @ ''.'')
       (''Verify the collection name and filter syntax. Available operators: eq, neq, gt, gte, lt, lte, contains, in. Use list_collections to see available collections.'')"

definition import_documents_catch :: "string \<Rightarrow> jsval \<Rightarrow> jsval + ToolResponse" where
  "import_documents_catch collection err =
     e_bind (get_prop err ''status'') (\<lambda>st.
       if st = Some (JNumber 413) then
          return_error ''IMPORT_TOO_LARGE''
            (''The import payload exceeds the maximum allowed size.'')
            (''Free plans support up to 1,000 documents (5 MB). Pro plans support up to 10,000 documents (50 MB). Try importing in smaller batches.'')
       else if st = Some (JNumber 409) then
          return_error_or ''IMPORT_CONFLICT'' err
            (''One or more documents conflict with existing IDs.'')
            (''Use onConflict: '' @ quoted ''skip'' @ '' to ignore duplicates or '' @ quoted ''overwrite'' @ '' to replace existing documents.'')
       else
          return_error_or ''IMPORT_FAILED'' err
            (''Failed to import documents into collection '' @ quoted collection @ ''.'')
            (''Verify each document is a valid JSON object. Check the import limits for your plan.''))"

definition export_collection_catch :: "string \<Rightarrow> jsval \<Rightarrow> jsval + ToolResponse" where
  "export_collection_catch collection err =
     e_bind (get_prop err ''status'') (\<lambda>st.
       if st = Some (JNumber 403) then
          return_error ''EXPORT_LIMIT_EXCEEDED''
            (''Export limit exceeded for your plan.'')
            (''Free plans support up to 1,000 documents per export. Upgrade to Pro for up to 100,000.'')
       else
          return_error_or ''EXPORT_FAILED'' err
            (''Failed to export collection '' @ quoted collection @ ''.'')
            (''Verify the collection name is correct. Use list_collections to see available collections.''))"


section \<open>Schema tools (\<open>registerSchemaTools\<close>)\<close>

text \<open>
  \<open>{ collection, ...result }\<close> copies the own enumerable properties of \<open>result\<close>
  after \<open>collection\<close>: those of an object, the indexed elements of an array or of a
  string, none for any other value.
\<close>

definition spread :: "jsval \<Rightarrow> (string \<times> json) list" where
  "spread v =
     (case v of
        Some (JObject kvs) \<Rightarrow> kvs
      | Some (JArray xs) \<Rightarrow> zip (map show_nat [0..<length xs]) xs
      | Some (JString s) \<Rightarrow> zip (map show_nat [0..<length s]) (map (\<lambda>c. JString [c]) s)
      | _ \<Rightarrow> [])"

definition obj_spread :: "(string \<times> json) list \<Rightarrow> (string \<times> json) list \<Rightarrow> (string \<times> json) list" where
  "obj_spread base kvs = foldl (\<lambda>obj (k, v). obj_set obj k v) base kvs"

definition get_schema_try :: "string \<Rightarrow> world \<Rightarrow> (jsval + ToolResponse) \<times> world" where
  "get_schema_try collection w =
     await (sdk collection ''getSchema'' [] w)
       (\<lambda>schema.
          if schema = Some JNull then
            return_success
              (Some (mk_obj [(''collection'', Some (JString collection)),
                             (''schema'', Some JNull),
                             (''message'', Some (JString (''No schema is set for collection '' @ quoted collection @ ''. Any valid JSON document can be stored.'')))]))
          else
            return_success
              (Some (mk_obj [(''collection'', Some (JString collection)), (''schema'', schema)])))"

definition set_schema_try ::
  "string \<Rightarrow> (string \<times> json) list \<Rightarrow> world \<Rightarrow> (jsval + ToolResponse) \<times> world" where
  "set_schema_try collection schema w =
     await (sdk collection ''setSchema'' [Some (JObject schema)] w)
       (\<lambda>_. return_success
          (Some (mk_obj [(''collection'', Some (JString collection)),
                         (''schema'', Some (JObject schema)),
                         (''message'', Some (JString (''Schema set successfully for collection '' @ quoted collection @ ''. All new and updated documents will be validated against this schema.'')))])))"

definition remove_schema_try :: "string \<Rightarrow> world \<Rightarrow> (jsval + ToolResponse) \<times> world" where
  "remove_schema_try collection w =
     await (sdk collection ''removeSchema'' [] w)
       (\<lambda>_. return_success
          (Some (mk_obj [(''collection'', Some (JString collection)),
                         (''schema'', Some JNull),
                         (''message'', Some (JString (''Schema removed from collection '' @ quoted collection @ ''. Documents are no longer validated.'')))])))"

definition validate_document_try ::
  "string \<Rightarrow> (string \<times> json) list \<Rightarrow> world \<Rightarrow> (jsval + ToolResponse) \<times> world" where
  "validate_document_try collection data w =
     await (sdk collection ''validate'' [Some (JObject data)] w)
       (\<lambda>result. return_success
          (Some (JObject (obj_spread [(''collection'', JString collection)] (spread result)))))"

definition get_schema_catch :: "string \<Rightarrow> jsval \<Rightarrow> jsval + ToolResponse" where
  "get_schema_catch collection err =
     return_error_or ''GET_SCHEMA_FAILED'' err
       (''Failed to get schema for collection '' @ quoted collection @ ''.'')
       (''Verify the collection name is correct. Use list_collections to see available collections.'')"

definition set_schema_catch :: "string \<Rightarrow> jsval \<Rightarrow> jsval + ToolResponse" where
  "set_schema_catch collection err =
     e_bind (get_prop err ''status'') (\<lambda>st.
       if st = Some (JNumber 400) then
          return_error_or ''INVALID_SCHEMA'' err
            (''The provided schema is not a valid JSON Schema.'')
            (''Ensure the schema follows JSON Schema format. The top-level '' @ quoted ''type'' @ '' should typically be '' @ quoted ''object'' @ ''. Example: { type: '' @ quoted ''object'' @ '', properties: { name: { type: '' @ quoted ''string'' @ '' } }, required: ['' @ quoted ''name'' @ ''] }'')
       else
          return_error_or ''SET_SCHEMA_FAILED'' err
            (''Failed to set schema for collection '' @ quoted collection @ ''.'')
            (''Verify the collection name and ensure the schema is valid JSON Schema format.''))"

definition remove_schema_catch :: "string \<Rightarrow> jsval \<Rightarrow> jsval + ToolResponse" where
  "remove_schema_catch collection err =
     e_bind (get_prop err ''status'') (\<lambda>st.
       if st = Some (JNumber 404) then
          return_error ''SCHEMA_NOT_FOUND''
            (''No schema is set for collection '' @ quoted collection @ ''.'')
            (''Use get_schema({ collection: '' @ quoted collection @ '' }) to check whether a schema exists.'')
       else
          return_error_or ''REMOVE_SCHEMA_FAILED'' err
            (''Failed to remove schema from collection '' @ quoted collection @ ''.'')
            (''Verify the collection name is correct. Use list_collections to see available collections.''))"

definition validate_document_catch :: "string \<Rightarrow> jsval \<Rightarrow> jsval + ToolResponse" where
  "validate_document_catch collection err =
     e_bind (get_prop err ''status'') (\<lambda>st.
       if st = Some (JNumber 404) then
          return_error ''SCHEMA_NOT_FOUND''
            (''No schema is set for collection '' @ quoted collection @ ''.'')
            (''Use set_schema to add a schema first, or use create_document directly if no validation is needed.'')
       else
          return_error_or ''VALIDATE_FAILED'' err
            (''Failed to validate document against collection '' @ quoted collection @ '' schema.'')
            (''Verify the collection name is correct and the data is a valid JSON object.''))"

section \<open>Version tools (\<open>registerVersionTools\<close>)\<close>

text \<open>
  Version numbers are the positive integers that the declared shape admits; \<open>from\<close>
  and \<open>to\<close> are written \<open>vfrom\<close> and \<open>vto\<close>.
\<close>

definition list_versions_try ::
  "string \<Rightarrow> string \<Rightarrow> world \<Rightarrow> (jsval + ToolResponse) \<times> world" where
  "list_versions_try collection doc_id w =
     (let c = resolveEnv (env w)
      in await (versionFetch
                  (baseUrl c @ ''/'' @ project c @ ''/'' @ collection @ ''/'' @ doc_id @ ''/versions'')
                  (apiKey c) None w)
           return_success)"

definition get_version_try ::
  "string \<Rightarrow> string \<Rightarrow> nat \<Rightarrow> world \<Rightarrow> (jsval + ToolResponse) \<times> world" where
  "get_version_try collection doc_id version w =
     (let c = resolveEnv (env w)
      in await (versionFetch
                  (baseUrl c @ ''/'' @ project c @ ''/'' @ collection @ ''/'' @ doc_id @ ''/versions/''
                     @ show_nat version)
                  (apiKey c) None w)
           return_success)"

definition restore_version_try ::
  "string \<Rightarrow> string \<Rightarrow> nat \<Rightarrow> world \<Rightarrow> (jsval + ToolResponse) \<times> world" where
  "restore_version_try collection doc_id version w =
     (let c = resolveEnv (env w)
      in await (versionFetch
                  (baseUrl c @ ''/'' @ project c @ ''/'' @ collection @ ''/'' @ doc_id @ ''/versions/''
                     @ show_nat version @ ''/restore'')
                  (apiKey c) (Some ''POST'') w)
           return_success)"

definition diff_versions_try ::
  "string \<Rightarrow> string \<Rightarrow> nat \<Rightarrow> nat \<Rightarrow> world \<Rightarrow> (jsval + ToolResponse) \<times> world" where
  "diff_versions_try collection doc_id vfrom vto w =
     (let c = resolveEnv (env w);
          params = [(''from'', show_nat vfrom), (''to'', show_nat vto)]
      in await (versionFetch
                  (baseUrl c @ ''/'' @ project c @ ''/'' @ collection @ ''/'' @ doc_id
                     @ ''/versions/diff?'' @ params_toString params)
                  (apiKey c) None w)
           return_success)"

definition list_versions_catch :: "string \<Rightarrow> string \<Rightarrow> jsval \<Rightarrow> jsval + ToolResponse" where
  "list_versions_catch collection doc_id err =
     e_bind (get_prop err ''status'') (\<lambda>st.
       if st = Some (JNumber 404) then
          return_error ''DOCUMENT_NOT_FOUND''
            (''Document '' @ quoted doc_id @ '' not found in collection '' @ quoted collection @ ''.'')
            (''Use list_documents({ collection: '' @ quoted collection @ '' }) to see available documents.'')
       else
          return_error_or ''LIST_VERSIONS_FAILED'' err
            (''Failed to list versions for document '' @ quoted doc_id @ ''.'')
            (''Verify the collection and document ID are correct.''))"

definition get_version_catch :: "string \<Rightarrow> string \<Rightarrow> nat \<Rightarrow> jsval \<Rightarrow> jsval + ToolResponse" where
  "get_version_catch collection doc_id version err =
     e_bind (get_prop err ''status'') (\<lambda>st.
       if st = Some (JNumber 404) then
          return_error ''VERSION_NOT_FOUND''
            (''Version '' @ show_nat version @ '' of document '' @ quoted doc_id @ '' not found in collection '' @ quoted collection @ ''.'')
            (''Use list_versions({ collection: '' @ quoted collection @ '', id: '' @ quoted doc_id @ '' }) to see available versions.'')
       else
          return_error_or ''GET_VERSION_FAILED'' err
            (''Failed to get version '' @ show_nat version @ '' of document '' @ quoted doc_id @ ''.'')
            (''Verify the collection, document ID, and version number are correct.''))"

definition restore_version_catch :: "string \<Rightarrow> string \<Rightarrow> nat \<Rightarrow> jsval \<Rightarrow> jsval + ToolResponse" where
  "restore_version_catch collection doc_id version err =
     e_bind (get_prop err ''status'') (\<lambda>st.
       if st = Some (JNumber 404) then
          return_error ''VERSION_NOT_FOUND''
            (''Version '' @ show_nat version @ '' of document '' @ quoted doc_id @ '' not found in collection '' @ quoted collection @ ''.'')
            (''Use list_versions({ collection: '' @ quoted collection @ '', id: '' @ quoted doc_id @ '' }) to see available versions.'')
       else if st = Some (JNumber 400) then
          return_error_or ''VALIDATION_ERROR'' err
            (''The restored document failed schema validation.'')
            (''The historical version may not match the current schema. Use get_schema({ collection: '' @ quoted collection @ '' }) to review.'')
       else
          return_error_or ''RESTORE_VERSION_FAILED'' err
            (''Failed to restore document '' @ quoted doc_id @ '' to version '' @ show_nat version @ ''.'')
            (''Verify the collection, document ID, and version number are correct.''))"

definition diff_versions_catch :: "string \<Rightarrow> string \<Rightarrow> nat \<Rightarrow> nat \<Rightarrow> jsval \<Rightarrow> jsval + ToolResponse" where
  "diff_versions_catch collection doc_id vfrom vto err =
     e_bind (get_prop err ''status'') (\<lambda>st.
       if st = Some (JNumber 403) then
          return_error ''PRO_FEATURE''
            (''Version diff is a Pro plan feature.'')
            (''Upgrade to Pro at https://jsondb.cloud/dashboard/billing to enable version diffs.'')
       else if st = Some (JNumber 404) then
          return_error ''VERSION_NOT_FOUND''
            (''One or both versions ('' @ show_nat vfrom @ '', '' @ show_nat vto @ '') not found for document '' @ quoted doc_id @ ''.'')
            (''Use list_versions({ collection: '' @ quoted collection @ '', id: '' @ quoted doc_id @ '' }) to see available version numbers.'')
       else
          return_error_or ''DIFF_VERSIONS_FAILED'' err
            (''Failed to diff versions '' @ show_nat vfrom @ '' and '' @ show_nat vto @ '' of document '' @ quoted doc_id @ ''.'')
            (''Verify the collection, document ID, and both version numbers are correct.''))"

section \<open>Webhook tools (\<open>registerWebhookTools\<close>)\<close>

text \<open>
  The arguments \<open>url\<close> and \<open>status\<close> are bound to \<open>webhookUrl\<close> and
  \<open>webhookStatus\<close>, as in the source.
\<close>

definition create_webhook_try ::
  "string \<Rightarrow> string \<Rightarrow> string list \<Rightarrow> string option \<Rightarrow> world \<Rightarrow> (jsval + ToolResponse) \<times> world" where
  "create_webhook_try collection webhookUrl events description w =
     (let c = resolveEnv (env w)
      in await (webhookFetch
                  (baseUrl c @ ''/'' @ project c @ ''/'' @ collection @ ''/_webhooks'')
                  (apiKey c) (Some ''POST'')
                  (Some (mk_obj [(''url'', Some (JString webhookUrl)),
                                 (''events'', Some (JArray (map JString events))),
                                 (''description'', opt_string description)])) w)
           return_success)"

definition list_webhooks_try :: "string \<Rightarrow> world \<Rightarrow> (jsval + ToolResponse) \<times> world" where
  "list_webhooks_try collection w =
     (let c = resolveEnv (env w)
      in await (webhookFetch
                  (baseUrl c @ ''/'' @ project c @ ''/'' @ collection @ ''/_webhooks'')
                  (apiKey c) None None w)
           return_success)"

definition get_webhook_try ::
  "string \<Rightarrow> string \<Rightarrow> world \<Rightarrow> (jsval + ToolResponse) \<times> world" where
  "get_webhook_try collection webhookId w =
     (let c = resolveEnv (env w)
      in await (webhookFetch
                  (baseUrl c @ ''/'' @ project c @ ''/'' @ collection @ ''/_webhooks/'' @ webhookId)
                  (apiKey c) None None w)
           return_success)"

definition update_webhook_body ::
  "string option \<Rightarrow> string list option \<Rightarrow> string option \<Rightarrow> string option \<Rightarrow> (string \<times> json) list" where
  "update_webhook_body webhookUrl events description webhookStatus =
     (let body0 = [];
          body1 = (case webhookUrl of Some x \<Rightarrow> obj_set body0 ''url'' (JString x) | None \<Rightarrow> body0);
          body2 = (case events of
                     Some x \<Rightarrow> obj_set body1 ''events'' (JArray (map JString x))
                   | None \<Rightarrow> body1);
          body3 = (case description of
                     Some x \<Rightarrow> obj_set body2 ''description'' (JString x)
                   | None \<Rightarrow> body2);
          body4 = (case webhookStatus of
                     Some x \<Rightarrow> obj_set body3 ''status'' (JString x)
                   | None \<Rightarrow> body3)
      in body4)"

definition update_webhook_try ::
  "string \<Rightarrow> string \<Rightarrow> string option \<Rightarrow> string list option \<Rightarrow> string option \<Rightarrow> string option
     \<Rightarrow> world \<Rightarrow> (jsval + ToolResponse) \<times> world" where
  "update_webhook_try collection webhookId webhookUrl events description webhookStatus w =
     (let c = resolveEnv (env w);
          body = update_webhook_body webhookUrl events description webhookStatus
      in await (webhookFetch
                  (baseUrl c @ ''/'' @ project c @ ''/'' @ collection @ ''/_webhooks/'' @ webhookId)
                  (apiKey c) (Some ''PUT'') (Some (JObject body)) w)
           return_success)"

definition delete_webhook_try ::
  "string \<Rightarrow> string \<Rightarrow> world \<Rightarrow> (jsval + ToolResponse) \<times> world" where
  "delete_webhook_try collection webhookId w =
     (let c = resolveEnv (env w)
      in await (webhookFetch
                  (baseUrl c @ ''/'' @ project c @ ''/'' @ collection @ ''/_webhooks/'' @ webhookId)
                  (apiKey c) (Some ''DELETE'') None w)
           (\<lambda>_. return_success
              (Some (mk_obj [(''deleted'', Some (JBool True)),
                             (''webhookId'', Some (JString webhookId)),
                             (''collection'', Some (JString collection))]))))"

definition test_webhook_try ::
  "string \<Rightarrow> string \<Rightarrow> world \<Rightarrow> (jsval + ToolResponse) \<times> world" where
  "test_webhook_try collection webhookId w =
     (let c = resolveEnv (env w)
      in await (webhookFetch
                  (baseUrl c @ ''/'' @ project c @ ''/'' @ collection @ ''/_webhooks/'' @ webhookId
                     @ ''/test'')
                  (apiKey c) (Some ''POST'') None w)
           return_success)"

definition create_webhook_catch :: "string \<Rightarrow> jsval \<Rightarrow> jsval + ToolResponse" where
  "create_webhook_catch collection err =
     e_bind (get_prop err ''status'') (\<lambda>st.
       if st = Some (JNumber 403) then
          return_error_or ''WEBHOOK_LIMIT'' err
            (''Webhook limit reached for this collection or plan.'')
            (''Free plans allow 3 total webhooks (1 per collection). Pro plans allow 50 total (10 per collection). Delete unused webhooks or upgrade.'')
       else
          return_error_or ''CREATE_WEBHOOK_FAILED'' err
            (''Failed to create webhook for collection '' @ quoted collection @ ''.'')
            (''Verify the URL is reachable HTTPS and the event names are valid.''))"

definition list_webhooks_catch :: "string \<Rightarrow> jsval \<Rightarrow> jsval + ToolResponse" where
  "list_webhooks_catch collection err =
     return_error_or ''LIST_WEBHOOKS_FAILED'' err
       (''Failed to list webhooks for collection '' @ quoted collection @ ''.'')
       (''Verify the collection name is correct. Use list_collections to see available collections.'')"

definition get_webhook_catch :: "string \<Rightarrow> string \<Rightarrow> jsval \<Rightarrow> jsval + ToolResponse" where
  "get_webhook_catch collection webhookId err =
     e_bind (get_prop err ''status'') (\<lambda>st.
       if st = Some (JNumber 404) then
          return_error ''WEBHOOK_NOT_FOUND''
            (''Webhook '' @ quoted webhookId @ '' not found in collection '' @ quoted collection @ ''.'')
            (''Use list_webhooks({ collection: '' @ quoted collection @ '' }) to see available webhooks.'')
       else
          return_error_or ''GET_WEBHOOK_FAILED'' err
            (''Failed to get webhook '' @ quoted webhookId @ ''.'')
            (''Verify the collection name and webhook ID are correct.''))"

definition update_webhook_catch :: "string \<Rightarrow> string \<Rightarrow> jsval \<Rightarrow> jsval + ToolResponse" where
  "update_webhook_catch collection webhookId err =
     e_bind (get_prop err ''status'') (\<lambda>st.
       if st = Some (JNumber 404) then
          return_error ''WEBHOOK_NOT_FOUND''
            (''Webhook '' @ quoted webhookId @ '' not found in collection '' @ quoted collection @ ''.'')
            (''Use list_webhooks({ collection: '' @ quoted collection @ '' }) to see available webhooks.'')
       else
          return_error_or ''UPDATE_WEBHOOK_FAILED'' err
            (''Failed to update webhook '' @ quoted webhookId @ ''.'')
            (''Verify the collection name and webhook ID are correct.''))"

definition delete_webhook_catch :: "string \<Rightarrow> string \<Rightarrow> jsval \<Rightarrow> jsval + ToolResponse" where
  "delete_webhook_catch collection webhookId err =
     e_bind (get_prop err ''status'') (\<lambda>st.
       if st = Some (JNumber 404) then
          return_error ''WEBHOOK_NOT_FOUND''
            (''Webhook '' @ quoted webhookId @ '' not found in collection '' @ quoted collection @ ''.'')
            (''Use list_webhooks({ collection: '' @ quoted collection @ '' }) to see available webhooks.'')
       else
          return_error_or ''DELETE_WEBHOOK_FAILED'' err
            (''Failed to delete webhook '' @ quoted webhookId @ ''.'')
            (''Verify the collection name and webhook ID are correct.''))"

definition test_webhook_catch :: "string \<Rightarrow> string \<Rightarrow> jsval \<Rightarrow> jsval + ToolResponse" where
  "test_webhook_catch collection webhookId err =
     e_bind (get_prop err ''status'') (\<lambda>st.
       if st = Some (JNumber 404) then
          return_error ''WEBHOOK_NOT_FOUND''
            (''Webhook '' @ quoted webhookId @ '' not found in collection '' @ quoted collection @ ''.'')
            (''Use list_webhooks({ collection: '' @ quoted collection @ '' }) to see available webhooks.'')
       else
          return_error_or ''TEST_WEBHOOK_FAILED'' err
            (''Failed to send test event to webhook '' @ quoted webhookId @ ''.'')
            (''Verify the webhook URL is reachable and responding with a 2xx status.''))"

section \<open>Vector tools (\<open>registerVectorTools\<close>)\<close>

definition semantic_search_body ::
  "string \<Rightarrow> int option \<Rightarrow> int option \<Rightarrow> (string \<times> json) list option \<Rightarrow> (string \<times> json) list" where
  "semantic_search_body query limit threshold filter_arg =
     (let body0 = [(''query'', JString query)];
          body1 = (case limit of Some x \<Rightarrow> obj_set body0 ''limit'' (JNumber x) | None \<Rightarrow> body0);
          body2 = (case threshold of
                     Some x \<Rightarrow> obj_set body1 ''threshold'' (JNumber x)
                   | None \<Rightarrow> body1);
          body3 = (case filter_arg of
                     Some x \<Rightarrow> obj_set body2 ''filter'' (JObject x)
                   | None \<Rightarrow> body2)
      in body3)"

definition semantic_search_try ::
  "string \<Rightarrow> string \<Rightarrow> int option \<Rightarrow> int option \<Rightarrow> (string \<times> json) list option \<Rightarrow> world
     \<Rightarrow> (jsval + ToolResponse) \<times> world" where
  "semantic_search_try collection query limit threshold filter_arg w =
     (let c = resolveEnv (env w);
          body = semantic_search_body query limit threshold filter_arg
      in await (apiFetch
                  (baseUrl c @ ''/'' @ project c @ ''/'' @ collection @ ''/_search'')
                  (apiKey c) (Some ''POST'') (Some (JObject body)) w)
           return_success)"

text \<open>
  \<open>const payload = { ...data, $embed: embed_field };\<close> and the choice
  \<open>if (id) PUT .../collection/id else POST .../collection\<close>.
\<close>

definition store_with_embedding_try ::
  "string \<Rightarrow> (string \<times> json) list \<Rightarrow> string \<Rightarrow> string option \<Rightarrow> world
     \<Rightarrow> (jsval + ToolResponse) \<times> world" where
  "store_with_embedding_try collection data embed_field doc_id w =
     (let c = resolveEnv (env w);
          payload = obj_set data ''$embed'' (JString embed_field)
      in await
           (if truthy (opt_string doc_id)
            then apiFetch
                   (baseUrl c @ ''/'' @ project c @ ''/'' @ collection @ ''/'' @ template_opt doc_id)
                   (apiKey c) (Some ''PUT'') (Some (JObject payload)) w
            else apiFetch
                   (baseUrl c @ ''/'' @ project c @ ''/'' @ collection)
                   (apiKey c) (Some ''POST'') (Some (JObject payload)) w)
           return_success)"

definition semantic_search_catch :: "string \<Rightarrow> jsval \<Rightarrow> jsval + ToolResponse" where
  "semantic_search_catch collection err =
     e_bind (get_prop err ''status'') (\<lambda>st.
       if st = Some (JNumber 404) then
          return_error ''COLLECTION_NOT_FOUND''
            (''Collection '' @ quoted collection @ '' not found or has no embeddings.'')
            (''Ensure the collection exists and documents were stored with store_with_embedding. Use list_collections to see available collections.'')
       else if st = Some (JNumber 400) then
          return_error_or ''INVALID_SEARCH'' err
            (''Invalid search request for collection '' @ quoted collection @ ''.'')
            (''Check that the query is a non-empty string and threshold is between 0 and 1.'')
       else if st = Some (JNumber 403) then
          return_error_or ''SEARCH_NOT_AVAILABLE'' err
            (''Semantic search is not available on your current plan.'')
            (''Upgrade your plan at https://jsondb.cloud/dashboard/billing to enable vector search.'')
       else
          return_error_or ''SEARCH_FAILED'' err
            (''Failed to search collection '' @ quoted collection @ ''.'')
            (''Verify the collection name and that documents have been stored with embeddings.''))"

definition store_with_embedding_catch :: "string \<Rightarrow> string \<Rightarrow> jsval \<Rightarrow> jsval + ToolResponse" where
  "store_with_embedding_catch collection embed_field err =
     e_bind (get_prop err ''status'') (\<lambda>st.
       if st = Some (JNumber 400) then
          return_error_or ''VALIDATION_ERROR'' err
            (''The document failed validation for collection '' @ quoted collection @ ''.'')
            (''Ensure the embed_field '' @ quoted embed_field @ '' exists in your data and contains text content suitable for embedding.'')
       else if st = Some (JNumber 413) then
          return_error ''DOCUMENT_TOO_LARGE''
            (''The document exceeds the maximum allowed size.'')
            (''Reduce the document size. Free plans allow up to 16 KB per document, Pro plans allow up to 1 MB.'')
       else if st = Some (JNumber 403) then
          return_error_or ''EMBEDDING_NOT_AVAILABLE'' err
            (''Embedding generation is not available on your current plan.'')
            (''Upgrade your plan at https://jsondb.cloud/dashboard/billing to enable automatic embeddings.'')
       else
          return_error_or ''STORE_EMBEDDING_FAILED'' err
            (''Failed to store document with embedding in collection '' @ quoted collection @ ''.'')
            (''Check that the collection name is valid, the data is a valid JSON object, and the embed_field references an existing text field.''))"


section \<open>Tool calls and their dispatch\<close>

text \<open>
  A tool call is the name of a registered tool with its validated arguments.
  \<open>handle\<close> runs the handler registered under that name: the \<open>try\<close> block, and
  the \<open>catch\<close> block on what it throws. \<open>Inl\<close> in the result is a value that
  the handler throws across the tool boundary.
\<close>

datatype tool_call =
    Create_document string "(string \<times> json) list" "string option"
  | Get_document string string
  | List_documents string "(string \<times> json) list option" "string option" "int option" "int option" "string list option"
  | Update_document string string "(string \<times> json) list"
  | Patch_document string string "(string \<times> json) list"
  | Delete_document string string
  | Count_documents string "(string \<times> json) list option"
  | Json_patch_document string string "json list"
  | List_collections
  | Search_documents string "filter_spec list" "string option" "int option" "int option"
  | Import_documents string "(string \<times> json) list list" "string option" "string option"
  | Export_collection string "(string \<times> json) list option"
  | Get_schema string
  | Set_schema string "(string \<times> json) list"
  | Remove_schema string
  | Validate_document string "(string \<times> json) list"
  | List_versions string string
  | Get_version string string nat
  | Restore_version string string nat
  | Diff_versions string string nat nat
  | Create_webhook string string "string list" "string option"
  | List_webhooks string
  | Get_webhook string string
  | Update_webhook string string "string option" "string list option" "string option" "string option"
  | Delete_webhook string string
  | Test_webhook string string
  | Semantic_search string string "int option" "int option" "(string \<times> json) list option"
  | Store_with_embedding string "(string \<times> json) list" string "string option"

primrec tool_name :: "tool_call \<Rightarrow> string" where
  "tool_name (Create_document collection data doc_id) = ''create_document''"
| "tool_name (Get_document collection doc_id) = ''get_document''"
| "tool_name (List_documents collection filter_arg sort_arg limit offset select) = ''list_documents''"
| "tool_name (Update_document collection doc_id data) = ''update_document''"
| "tool_name (Patch_document collection doc_id data) = ''patch_document''"
| "tool_name (Delete_document collection doc_id) = ''delete_document''"
| "tool_name (Count_documents collection filter_arg) = ''count_documents''"
| "tool_name (Json_patch_document collection doc_id operations) = ''json_patch_document''"
| "tool_name (List_collections) = ''list_collections''"
| "tool_name (Search_documents collection filters sort_arg limit offset) = ''search_documents''"
| "tool_name (Import_documents collection documents onConflict idField) = ''import_documents''"
| "tool_name (Export_collection collection filter_arg) = ''export_collection''"
| "tool_name (Get_schema collection) = ''get_schema''"
| "tool_name (Set_schema collection schema) = ''set_schema''"
| "tool_name (Remove_schema collection) = ''remove_schema''"
| "tool_name (Validate_document collection data) = ''validate_document''"
| "tool_name (List_versions collection doc_id) = ''list_versions''"
| "tool_name (Get_version collection doc_id version) = ''get_version''"
| "tool_name (Restore_version collection doc_id version) = ''restore_version''"
| "tool_name (Diff_versions collection doc_id vfrom vto) = ''diff_versions''"
| "tool_name (Create_webhook collection webhookUrl events description) = ''create_webhook''"
| "tool_name (List_webhooks collection) = ''list_webhooks''"
| "tool_name (Get_webhook collection webhookId) = ''get_webhook''"
| "tool_name (Update_webhook collection webhookId webhookUrl events description webhookStatus) = ''update_webhook''"
| "tool_name (Delete_webhook collection webhookId) = ''delete_webhook''"
| "tool_name (Test_webhook collection webhookId) = ''test_webhook''"
| "tool_name (Semantic_search collection query limit threshold filter_arg) = ''semantic_search''"
| "tool_name (Store_with_embedding collection data embed_field doc_id) = ''store_with_embedding''"

primrec tool_try :: "tool_call \<Rightarrow> world \<Rightarrow> (jsval + ToolResponse) \<times> world" where
  "tool_try (Create_document collection data doc_id) w = create_document_try collection data doc_id w"
| "tool_try (Get_document collection doc_id) w = get_document_try collection doc_id w"
| "tool_try (List_documents collection filter_arg sort_arg limit offset select) w = list_documents_try collection filter_arg sort_arg limit offset select w"
| "tool_try (Update_document collection doc_id data) w = update_document_try collection doc_id data w"
| "tool_try (Patch_document collection doc_id data) w = patch_document_try collection doc_id data w"
| "tool_try (Delete_document collection doc_id) w = delete_document_try collection doc_id w"
| "tool_try (Count_documents collection filter_arg) w = count_documents_try collection filter_arg w"
| "tool_try (Json_patch_document collection doc_id operations) w = json_patch_document_try collection doc_id operations w"
| "tool_try (List_collections) w = list_collections_try w"
| "tool_try (Search_documents collection filters sort_arg limit offset) w = search_documents_try collection filters sort_arg limit offset w"
| "tool_try (Import_documents collection documents onConflict idField) w = import_documents_try collection documents onConflict idField w"
| "tool_try (Export_collection collection filter_arg) w = export_collection_try collection filter_arg w"
| "tool_try (Get_schema collection) w = get_schema_try collection w"
| "tool_try (Set_schema collection schema) w = set_schema_try collection schema w"
| "tool_try (Remove_schema collection) w = remove_schema_try collection w"
| "tool_try (Validate_document collection data) w = validate_document_try collection data w"
| "tool_try (List_versions collection doc_id) w = list_versions_try collection doc_id w"
| "tool_try (Get_version collection doc_id version) w = get_version_try collection doc_id version w"
| "tool_try (Restore_version collection doc_id version) w = restore_version_try collection doc_id version w"
| "tool_try (Diff_versions collection doc_id vfrom vto) w = diff_versions_try collection doc_id vfrom vto w"
| "tool_try (Create_webhook collection webhookUrl events description) w = create_webhook_try collection webhookUrl events description w"
| "tool_try (List_webhooks collection) w = list_webhooks_try collection w"
| "tool_try (Get_webhook collection webhookId) w = get_webhook_try collection webhookId w"
| "tool_try (Update_webhook collection webhookId webhookUrl events description webhookStatus) w = update_webhook_try collection webhookId webhookUrl events description webhookStatus w"
| "tool_try (Delete_webhook collection webhookId) w = delete_webhook_try collection webhookId w"
| "tool_try (Test_webhook collection webhookId) w = test_webhook_try collection webhookId w"
| "tool_try (Semantic_search collection query limit threshold filter_arg) w = semantic_search_try collection query limit threshold filter_arg w"
| "tool_try (Store_with_embedding collection data embed_field doc_id) w = store_with_embedding_try collection data embed_field doc_id w"

primrec tool_catch :: "tool_call \<Rightarrow> jsval \<Rightarrow> jsval + ToolResponse" where
  "tool_catch (Create_document collection data doc_id) err = create_document_catch collection err"
| "tool_catch (Get_document collection doc_id) err = get_document_catch collection doc_id err"
| "tool_catch (List_documents collection filter_arg sort_arg limit offset select) err = list_documents_catch collection err"
| "tool_catch (Update_document collection doc_id data) err = update_document_catch collection doc_id err"
| "tool_catch (Patch_document collection doc_id data) err = patch_document_catch collection doc_id err"
| "tool_catch (Delete_document collection doc_id) err = delete_document_catch collection doc_id err"
| "tool_catch (Count_documents collection filter_arg) err = count_documents_catch collection err"
| "tool_catch (Json_patch_document collection doc_id operations) err = json_patch_document_catch collection doc_id err"
| "tool_catch (List_collections) err = list_collections_catch err"
| "tool_catch (Search_documents collection filters sort_arg limit offset) err = search_documents_catch collection err"
| "tool_catch (Import_documents collection documents onConflict idField) err = import_documents_catch collection err"
| "tool_catch (Export_collection collection filter_arg) err = export_collection_catch collection err"
| "tool_catch (Get_schema collection) err = get_schema_catch collection err"
| "tool_catch (Set_schema collection schema) err = set_schema_catch collection err"
| "tool_catch (Remove_schema collection) err = remove_schema_catch collection err"
| "tool_catch (Validate_document collection data) err = validate_document_catch collection err"
| "tool_catch (List_versions collection doc_id) err = list_versions_catch collection doc_id err"
| "tool_catch (Get_version collection doc_id version) err = get_version_catch collection doc_id version err"
| "tool_catch (Restore_version collection doc_id version) err = restore_version_catch collection doc_id version err"
| "tool_catch (Diff_versions collection doc_id vfrom vto) err = diff_versions_catch collection doc_id vfrom vto err"
| "tool_catch (Create_webhook collection webhookUrl events description) err = create_webhook_catch collection err"
| "tool_catch (List_webhooks collection) err = list_webhooks_catch collection err"
| "tool_catch (Get_webhook collection webhookId) err = get_webhook_catch collection webhookId err"
| "tool_catch (Update_webhook collection webhookId webhookUrl events description webhookStatus) err = update_webhook_catch collection webhookId err"
| "tool_catch (Delete_webhook collection webhookId) err = delete_webhook_catch collection webhookId err"
| "tool_catch (Test_webhook collection webhookId) err = test_webhook_catch collection webhookId err"
| "tool_catch (Semantic_search collection query limit threshold filter_arg) err = semantic_search_catch collection err"
| "tool_catch (Store_with_embedding collection data embed_field doc_id) err = store_with_embedding_catch collection embed_field err"

definition handle :: "tool_call \<Rightarrow> world \<Rightarrow> (jsval + ToolResponse) \<times> world" where
  "handle c w = try_catch (tool_try c w) (tool_catch c)"

text \<open>
  The decision table of a handler: the status codes its \<open>catch\<close> block tests, in
  order, each with the error code it returns; and the code of its last, unconditional
  \<open>return error(...)\<close>.
\<close>

primrec decision_table :: "tool_call \<Rightarrow> (int \<times> string) list" where
  "decision_table (Create_document collection data doc_id) = [(409, ''DOCUMENT_CONFLICT''), (413, ''DOCUMENT_TOO_LARGE''), (400, ''VALIDATION_ERROR'')]"
| "decision_table (Get_document collection doc_id) = [(404, ''DOCUMENT_NOT_FOUND'')]"
| "decision_table (List_documents collection filter_arg sort_arg limit offset select) = []"
| "decision_table (Update_document collection doc_id data) = [(404, ''DOCUMENT_NOT_FOUND''), (400, ''VALIDATION_ERROR'')]"
| "decision_table (Patch_document collection doc_id data) = [(404, ''DOCUMENT_NOT_FOUND''), (400, ''VALIDATION_ERROR'')]"
| "decision_table (Delete_document collection doc_id) = [(404, ''DOCUMENT_NOT_FOUND'')]"
| "decision_table (Count_documents collection filter_arg) = []"
| "decision_table (Json_patch_document collection doc_id operations) = [(404, ''DOCUMENT_NOT_FOUND''), (409, ''PATCH_CONFLICT''), (400, ''VALIDATION_ERROR'')]"
| "decision_table (List_collections) = []"
| "decision_table (Search_documents collection filters sort_arg limit offset) = []"
| "decision_table (Import_documents collection documents onConflict idField) = [(413, ''IMPORT_TOO_LARGE''), (409, ''IMPORT_CONFLICT'')]"
| "decision_table (Export_collection collection filter_arg) = [(403, ''EXPORT_LIMIT_EXCEEDED'')]"
| "decision_table (Get_schema collection) = []"
| "decision_table (Set_schema collection schema) = [(400, ''INVALID_SCHEMA'')]"
| "decision_table (Remove_schema collection) = [(404, ''SCHEMA_NOT_FOUND'')]"
| "decision_table (Validate_document collection data) = [(404, ''SCHEMA_NOT_FOUND'')]"
| "decision_table (List_versions collection doc_id) = [(404, ''DOCUMENT_NOT_FOUND'')]"
| "decision_table (Get_version collection doc_id version) = [(404, ''VERSION_NOT_FOUND'')]"
| "decision_table (Restore_version collection doc_id version) = [(404, ''VERSION_NOT_FOUND''), (400, ''VALIDATION_ERROR'')]"
| "decision_table (Diff_versions collection doc_id vfrom vto) = [(403, ''PRO_FEATURE''), (404, ''VERSION_NOT_FOUND'')]"
| "decision_table (Create_webhook collection webhookUrl events description) = [(403, ''WEBHOOK_LIMIT'')]"
| "decision_table (List_webhooks collection) = []"
| "decision_table (Get_webhook collection webhookId) = [(404, ''WEBHOOK_NOT_FOUND'')]"
| "decision_table (Update_webhook collection webhookId webhookUrl events description webhookStatus) = [(404, ''WEBHOOK_NOT_FOUND'')]"
| "decision_table (Delete_webhook collection webhookId) = [(404, ''WEBHOOK_NOT_FOUND'')]"
| "decision_table (Test_webhook collection webhookId) = [(404, ''WEBHOOK_NOT_FOUND'')]"
| "decision_table (Semantic_search collection query limit threshold filter_arg) = [(404, ''COLLECTION_NOT_FOUND''), (400, ''INVALID_SEARCH''), (403, ''SEARCH_NOT_AVAILABLE'')]"
| "decision_table (Store_with_embedding collection data embed_field doc_id) = [(400, ''VALIDATION_ERROR''), (413, ''DOCUMENT_TOO_LARGE''), (403, ''EMBEDDING_NOT_AVAILABLE'')]"

primrec fallback_code :: "tool_call \<Rightarrow> string" where
  "fallback_code (Create_document collection data doc_id) = ''CREATE_FAILED''"
| "fallback_code (Get_document collection doc_id) = ''GET_FAILED''"
| "fallback_code (List_documents collection filter_arg sort_arg limit offset select) = ''LIST_FAILED''"
| "fallback_code (Update_document collection doc_id data) = ''UPDATE_FAILED''"
| "fallback_code (Patch_document collection doc_id data) = ''PATCH_FAILED''"
| "fallback_code (Delete_document collection doc_id) = ''DELETE_FAILED''"
| "fallback_code (Count_documents collection filter_arg) = ''COUNT_FAILED''"
| "fallback_code (Json_patch_document collection doc_id operations) = ''JSON_PATCH_FAILED''"
| "fallback_code (List_collections) = ''LIST_COLLECTIONS_FAILED''"
| "fallback_code (Search_documents collection filters sort_arg limit offset) = ''SEARCH_FAILED''"
| "fallback_code (Import_documents collection documents onConflict idField) = ''IMPORT_FAILED''"
| "fallback_code (Export_collection collection filter_arg) = ''EXPORT_FAILED''"
| "fallback_code (Get_schema collection) = ''GET_SCHEMA_FAILED''"
| "fallback_code (Set_schema collection schema) = ''SET_SCHEMA_FAILED''"
| "fallback_code (Remove_schema collection) = ''REMOVE_SCHEMA_FAILED''"
| "fallback_code (Validate_document collection data) = ''VALIDATE_FAILED''"
| "fallback_code (List_versions collection doc_id) = ''LIST_VERSIONS_FAILED''"
| "fallback_code (Get_version collection doc_id version) = ''GET_VERSION_FAILED''"
| "fallback_code (Restore_version collection doc_id version) = ''RESTORE_VERSION_FAILED''"
| "fallback_code (Diff_versions collection doc_id vfrom vto) = ''DIFF_VERSIONS_FAILED''"
| "fallback_code (Create_webhook collection webhookUrl events description) = ''CREATE_WEBHOOK_FAILED''"
| "fallback_code (List_webhooks collection) = ''LIST_WEBHOOKS_FAILED''"
| "fallback_code (Get_webhook collection webhookId) = ''GET_WEBHOOK_FAILED''"
| "fallback_code (Update_webhook collection webhookId webhookUrl events description webhookStatus) = ''UPDATE_WEBHOOK_FAILED''"
| "fallback_code (Delete_webhook collection webhookId) = ''DELETE_WEBHOOK_FAILED''"
| "fallback_code (Test_webhook collection webhookId) = ''TEST_WEBHOOK_FAILED''"
| "fallback_code (Semantic_search collection query limit threshold filter_arg) = ''SEARCH_FAILED''"
| "fallback_code (Store_with_embedding collection data embed_field doc_id) = ''STORE_EMBEDDING_FAILED''"

definition classify :: "tool_call \<Rightarrow> jsval \<Rightarrow> string" where
  "classify c e = classify_with (decision_table c) (fallback_code c) e"

text \<open>
  The handlers of the document tools, of search_documents and of the schema tools call
  the SDK client \<open>db\<close>, the object that \<open>main\<close> builds once and hands to every
  \<open>register...Tools\<close>. All other handlers ignore \<open>db\<close> and call the REST API
  with \<open>fetch\<close>, directly or through a REST client.
\<close>

primrec sdk_backed :: "tool_call \<Rightarrow> bool" where
  "sdk_backed (Create_document collection data doc_id) = True"
| "sdk_backed (Get_document collection doc_id) = True"
| "sdk_backed (List_documents collection filter_arg sort_arg limit offset select) = True"
| "sdk_backed (Update_document collection doc_id data) = True"
| "sdk_backed (Patch_document collection doc_id data) = True"
| "sdk_backed (Delete_document collection doc_id) = True"
| "sdk_backed (Count_documents collection filter_arg) = True"
| "sdk_backed (Json_patch_document collection doc_id operations) = True"
| "sdk_backed (List_collections) = False"
| "sdk_backed (Search_documents collection filters sort_arg limit offset) = True"
| "sdk_backed (Import_documents collection documents onConflict idField) = False"
| "sdk_backed (Export_collection collection filter_arg) = False"
| "sdk_backed (Get_schema collection) = True"
| "sdk_backed (Set_schema collection schema) = True"
| "sdk_backed (Remove_schema collection) = True"
| "sdk_backed (Validate_document collection data) = True"
| "sdk_backed (List_versions collection doc_id) = False"
| "sdk_backed (Get_version collection doc_id version) = False"
| "sdk_backed (Restore_version collection doc_id version) = False"
| "sdk_backed (Diff_versions collection doc_id vfrom vto) = False"
| "sdk_backed (Create_webhook collection webhookUrl events description) = False"
| "sdk_backed (List_webhooks collection) = False"
| "sdk_backed (Get_webhook collection webhookId) = False"
| "sdk_backed (Update_webhook collection webhookId webhookUrl events description webhookStatus) = False"
| "sdk_backed (Delete_webhook collection webhookId) = False"
| "sdk_backed (Test_webhook collection webhookId) = False"
| "sdk_backed (Semantic_search collection query limit threshold filter_arg) = False"
| "sdk_backed (Store_with_embedding collection data embed_field doc_id) = False"

text \<open>
  The calls whose request can be built: every call but an export whose filter holds a
  value that \<open>String\<close> cannot convert.
\<close>

definition renderable :: "tool_call \<Rightarrow> bool" where
  "renderable c =
     (case c of Export_collection collection filter_arg \<Rightarrow> renderable_filter filter_arg | _ \<Rightarrow> True)"

text \<open>
  A failure that the decision table of a handler does not match: it has no numeric
  status, or its status is none of the statuses that the \<open>catch\<close> block tests.
\<close>

definition unmatched :: "tool_call \<Rightarrow> jsval \<Rightarrow> bool" where
  "unmatched c e =
     (case get_prop e ''status'' of
        Inr (Some (JNumber n)) \<Rightarrow> n \<notin> set (map fst (decision_table c))
      | _ \<Rightarrow> True)"

section \<open>Process start (\<open>main\<close>)\<close>

text \<open>
  \<open>main\<close> is modelled by the trace of what it does to the process and to the
  libraries, for library calls that succeed. \<open>process.exit\<close> ends the process, so
  nothing follows it in a trace. In the HTTP mode a protocol server is created for
  each request to \<open>/mcp\<close>, none at start.
\<close>

datatype event =
    Console_error string
  | Exit int
  | New_JsonDB credentials
  | Create_server
  | Connect_stdio
  | Http_listen "int option" string

definition missing_key_message :: string where
  "missing_key_message =
     ''Error: JSONDB_API_KEY environment variable is required.'' @ [CHR 0x0A, CHR 0x0A]
     @ ''Set it in your MCP server configuration:'' @ [CHR 0x0A]
     @ ''  '' @ [CHR 0x22] @ ''env'' @ [CHR 0x22] @ '': { '' @ [CHR 0x22] @ ''JSONDB_API_KEY''
     @ [CHR 0x22] @ '': '' @ [CHR 0x22] @ ''jdb_sk_live_...'' @ [CHR 0x22] @ '' }''
     @ [CHR 0x0A, CHR 0x0A]
     @ ''Get an API key from your jsondb.cloud dashboard.''"

text \<open>
  \<open>parseInt(s, 10)\<close>: leading white space, an optional sign, then the longest run of
  decimal digits; \<open>None\<close> is \<open>NaN\<close>.
\<close>

definition is_space :: "char \<Rightarrow> bool" where
  "is_space c = (c \<in> set [CHR 0x09, CHR 0x0A, CHR 0x0B, CHR 0x0C, CHR 0x0D, CHR '' ''])"

definition is_digit :: "char \<Rightarrow> bool" where
  "is_digit c = (48 \<le> (of_char c :: nat) \<and> (of_char c :: nat) \<le> 57)"

definition parseInt10 :: "string \<Rightarrow> int option" where
  "parseInt10 s =
     (let t = dropWhile is_space s;
          neg = (case t of c # cs \<Rightarrow> c = CHR ''-'' | [] \<Rightarrow> False);
          u = (case t of c # cs \<Rightarrow> if c = CHR ''-'' \<or> c = CHR ''+'' then cs else t | [] \<Rightarrow> t);
          ds = takeWhile is_digit u
      in if ds = [] then None
         else let n = int (foldl (\<lambda>a c. 10 * a + (of_char c - 48)) (0::nat) ds)
              in Some (if neg then - n else n))"

definition main :: "environment \<Rightarrow> event list" where
  "main e =
     (if str_or (e ''JSONDB_API_KEY'') [] = [] then
        [Console_error missing_key_message, Exit 1]
      else
        New_JsonDB
          \<lparr>apiKey = str_or (e ''JSONDB_API_KEY'') [],
           project = str_or (e ''JSONDB_PROJECT'') (str_or (e ''JSONDB_NAMESPACE'') ''v1''),
           baseUrl = str_or (e ''JSONDB_BASE_URL'') ''https://api.jsondb.cloud''\<rparr>
        # (if str_or (e ''JSONDB_MCP_TRANSPORT'') ''stdio'' = ''http'' then
             [Http_listen (parseInt10 (str_or (e ''JSONDB_MCP_PORT'') ''3100''))
                (str_or (e ''JSONDB_MCP_HOST'') ''127.0.0.1'')]
           else
             [Create_server, Connect_stdio]))"

definition builds_client :: "event \<Rightarrow> bool" where
  "builds_client ev = (case ev of New_JsonDB c \<Rightarrow> True | _ \<Rightarrow> False)"

definition creates_listener_or_session :: "event \<Rightarrow> bool" where
  "creates_listener_or_session ev =
     (case ev of
        Create_server \<Rightarrow> True
      | Connect_stdio \<Rightarrow> True
      | Http_listen p h \<Rightarrow> True
      | _ \<Rightarrow> False)"

section \<open>Sample worlds\<close>

text \<open>
  A world in which the network answers every request with \<open>net\<close> and the SDK client
  settles every call with \<open>out\<close>, and nothing has been sent yet.
\<close>

definition world_of :: "environment \<Rightarrow> fetch_result \<Rightarrow> jsval + jsval \<Rightarrow> world" where
  "world_of e net out =
     \<lparr>env = e, network = (\<lambda>url opts. net), db = (\<lambda>collection m args. out), sent = []\<rparr>"

definition sample_env :: environment where
  "sample_env = [''JSONDB_API_KEY'' \<mapsto> ''jdb_sk_test_abc'', ''JSONDB_PROJECT'' \<mapsto> ''test-project'']"

section \<open>Basic facts\<close>

lemma fst_await: "fst (await r k) = e_bind (fst r) k"
  by (cases r) (simp add: await_def)

lemma snd_await: "snd (await r k) = snd r"
  by (cases r) (simp add: await_def)

lemma fst_sdk: "fst (sdk collection m args w) = db w collection m args"
  by (simp add: sdk_def)

lemma snd_sdk: "snd (sdk collection m args w) = w"
  by (simp add: sdk_def)

lemma fst_try_catch:
  "fst (try_catch r h) = (case fst r of Inl e \<Rightarrow> h e | Inr v \<Rightarrow> Inr v)"
  by (cases r) (simp add: try_catch_def split: sum.splits)

lemma snd_try_catch: "snd (try_catch r h) = snd r"
  by (cases r) (simp add: try_catch_def split: sum.splits)

lemma fst_handle:
  "fst (handle c w) = (case fst (tool_try c w) of Inl e \<Rightarrow> tool_catch c e | Inr v \<Rightarrow> Inr v)"
  by (simp add: handle_def fst_try_catch)

lemma snd_handle: "snd (handle c w) = snd (tool_try c w)"
  by (simp add: handle_def snd_try_catch)

lemma returns_e_bind: "(\<And>v. returns P (k v)) \<Longrightarrow> returns P (e_bind x k)"
  by (cases x) (simp_all add: e_bind_def returns_def)

lemma returns_Inl: "returns P (Inl e)"
  by (simp add: returns_def)

lemma throws_e_bind: "throws P x \<Longrightarrow> (\<And>v. throws P (k v)) \<Longrightarrow> throws P (e_bind x k)"
  by (cases x) (simp_all add: e_bind_def throws_def)

lemma throws_Inl: "throws P (Inl e) = P e"
  by (simp add: throws_def)

lemma throws_return_success: "throws P (return_success d)"
  by (simp add: throws_def return_success_def)

lemma map_of_obj_set: "map_of (obj_set kvs k v) = (map_of kvs)(k \<mapsto> v)"
  by (induction kvs) (auto simp: fun_eq_iff)

lemma keys_obj_set: "fst ` set (obj_set kvs k v) = insert k (fst ` set kvs)"
proof (induction kvs)
  case Nil
  then show ?case by simp
next
  case (Cons a kvs)
  then show ?case by (cases a) (auto simp: image_iff)
qed

lemma distinct_obj_set: "distinct (map fst kvs) \<Longrightarrow> distinct (map fst (obj_set kvs k v))"
  by (induction kvs) (auto simp: keys_obj_set)

subsection \<open>The formatters\<close>

lemma success_shape_success: "success_shape (success d)"
  by (simp add: success_shape_def success_def)

lemma decoded_error:
  "decoded (error code m s) =
     Some (JObject [(''error'',
             JObject [(''code'', JString code), (''message'', m), (''suggestion'', JString s)])])"
  by (simp add: decoded_def error_def)

lemma error_shape_error: "error_shape (error code m s)"
  by (simp add: error_shape_def has_error_payload_def decoded_error) (simp add: error_def)

lemma error_code_error: "error_code (error code m s) = Some (JString code)"
  by (simp add: error_code_def decoded_error)

lemma error_with_code_error [simp]: "error_with_code c (error c' m s) = (c = c')"
  by (auto simp: error_with_code_def error_shape_error error_code_error)

lemma returns_return_success: "returns success_shape (return_success d)"
  by (simp add: returns_def return_success_def success_shape_success)

subsection \<open>Thrown values\<close>

lemma get_prop_defined: "\<not> nullish e \<Longrightarrow> \<exists>v. get_prop e k = Inr v"
  by (cases "(e, k)" rule: get_prop.cases) (auto simp: nullish_def)


lemma get_prop_nullish: "nullish e \<Longrightarrow> \<exists>x. get_prop e k = Inl x"
  by (auto simp: nullish_def)

lemma js_error_defined: "\<not> nullish (js_error m)"
  by (simp add: nullish_def js_error_def)

lemma get_prop_Inl_defined: "get_prop v k = Inl e \<Longrightarrow> \<not> nullish e"
  by (cases "(v, k)" rule: get_prop.cases) (auto simp: js_error_defined)

lemma get_prop_throws: "throws (\<lambda>e. \<not> nullish e) (get_prop v k)"
  by (cases "(v, k)" rule: get_prop.cases) (auto simp: js_error_defined throws_def)

lemma res_json_throws: "throws (\<lambda>e. \<not> nullish e) (res_json r)"
  by (auto simp: res_json_def js_error_defined throws_def split: sum.splits)

lemma upstream_failure_defined: "\<not> nullish (upstream_failure r)"
  using get_prop_throws [of "case res_json r of Inl e \<Rightarrow> Some (JObject []) | Inr v \<Rightarrow> v" "''error''"]
  by (auto simp: upstream_failure_def Let_def nullish_def mk_obj_def throws_def split: sum.splits)

lemma upstream_failure_status:
  "json r \<noteq> Inr JNull \<Longrightarrow>
   get_prop (upstream_failure r) ''status'' = Inr (Some (JNumber (status r)))"
  by (cases "json r"; cases "projr (json r)")
     (auto simp: upstream_failure_def res_json_def Let_def mk_obj_def)

subsection \<open>The REST clients\<close>

lemma apiFetch_sent:
  "sent (snd (apiFetch url key meth b w)) =
     sent w @ [(url,
       \<lparr>http_method = Some (case meth of None \<Rightarrow> ''GET'' | Some x \<Rightarrow> x),
        headers = [(''Authorization'', ''Bearer '' @ key), (''Content-Type'', ''application/json'')],
        body = (if b \<noteq> None \<and> meth \<in> {Some ''POST'', Some ''PUT'', Some ''PATCH''} then b else None)\<rparr>)]"
  by (cases meth) (auto simp: apiFetch_def fetch_def Let_def split: fetch_result.splits)

lemma webhookFetch_sent:
  "sent (snd (webhookFetch url key meth b w)) =
     sent w @ [(url,
       \<lparr>http_method = Some (case meth of None \<Rightarrow> ''GET'' | Some x \<Rightarrow> x),
        headers = [(''Authorization'', ''Bearer '' @ key), (''Content-Type'', ''application/json'')],
        body = (if b \<noteq> None \<and> meth \<in> {Some ''POST'', Some ''PUT'', Some ''PATCH''} then b else None)\<rparr>)]"
  by (cases meth) (auto simp: webhookFetch_def fetch_def Let_def split: fetch_result.splits)

lemma versionFetch_sent:
  "sent (snd (versionFetch url key meth w)) =
     sent w @ [(url,
       \<lparr>http_method = meth,
        headers = [(''Authorization'', ''Bearer '' @ key), (''Content-Type'', ''application/json'')],
        body = None\<rparr>)]"
  by (auto simp: versionFetch_def fetch_def Let_def split: fetch_result.splits)

lemma apiFetch_network:
  "network w1 = network w2 \<Longrightarrow>
   fst (apiFetch url key meth b w1) = fst (apiFetch url key meth b w2)"
  by (auto simp: apiFetch_def fetch_def Let_def split: fetch_result.splits)

lemma webhookFetch_network:
  "network w1 = network w2 \<Longrightarrow>
   fst (webhookFetch url key meth b w1) = fst (webhookFetch url key meth b w2)"
  by (auto simp: webhookFetch_def fetch_def Let_def split: fetch_result.splits)

lemma versionFetch_network:
  "network w1 = network w2 \<Longrightarrow>
   fst (versionFetch url key meth w1) = fst (versionFetch url key meth w2)"
  by (auto simp: versionFetch_def fetch_def Let_def split: fetch_result.splits)

lemma apiFetch_throws: "throws (\<lambda>e. \<not> nullish e) (fst (apiFetch url key meth b w))"
  using res_json_throws
  by (auto simp: apiFetch_def fetch_def Let_def js_error_defined upstream_failure_defined
      throws_def split: fetch_result.splits sum.splits)

lemma webhookFetch_throws: "throws (\<lambda>e. \<not> nullish e) (fst (webhookFetch url key meth b w))"
  using res_json_throws
  by (auto simp: webhookFetch_def fetch_def Let_def js_error_defined upstream_failure_defined
      throws_def split: fetch_result.splits sum.splits)

lemma versionFetch_throws: "throws (\<lambda>e. \<not> nullish e) (fst (versionFetch url key meth w))"
  using res_json_throws
  by (auto simp: versionFetch_def fetch_def Let_def js_error_defined upstream_failure_defined
      throws_def split: fetch_result.splits sum.splits)

text \<open>The three handlers that call \<open>fetch\<close> themselves share one shape.\<close>

lemma inline_fetch_fst:
  "fst (case fetch url opts w of
          (Rejected e, w') \<Rightarrow> (Inl (js_error e), w')
        | (Resolved res, w') \<Rightarrow>
            if \<not> ok res then (Inl (upstream_failure res), w') else (e_bind (res_json res) k, w'))
   = (case network w url opts of
        Rejected e \<Rightarrow> Inl (js_error e)
      | Resolved res \<Rightarrow>
          if \<not> ok res then Inl (upstream_failure res) else e_bind (res_json res) k)"
  by (simp add: fetch_def split: fetch_result.split)

lemma inline_fetch_sent:
  "sent (snd (case fetch url opts w of
          (Rejected e, w') \<Rightarrow> (Inl (js_error e), w')
        | (Resolved res, w') \<Rightarrow>
            if \<not> ok res then (Inl (upstream_failure res), w') else (e_bind (res_json res) k, w')))
   = sent w @ [(url, opts)]"
  by (simp add: fetch_def split: fetch_result.split)

lemma export_normalize_returns: "returns success_shape (export_normalize collection data)"
  unfolding export_normalize_def
  by (intro returns_e_bind returns_return_success)

lemma export_normalize_throws: "throws (\<lambda>e. \<not> nullish e) (export_normalize collection data)"
  by (auto simp: export_normalize_def e_bind_def return_success_def throws_def
      dest: get_prop_Inl_defined split: sum.splits if_splits)

subsection \<open>The query of an export\<close>

lemma js_to_string_stringable:
  "(stringable x \<longrightarrow> (\<exists>s. js_to_string x = Inr s))
   \<and> (\<not> stringable x \<longrightarrow> js_to_string x = Inl cannot_convert)"
  and js_strings_stringable:
  "(list_all stringable xs \<longrightarrow> (\<exists>ss. js_strings xs = Inr ss))
   \<and> (\<not> list_all stringable xs \<longrightarrow> js_strings xs = Inl cannot_convert)"
  by (induction x and xs rule: js_to_string_js_strings.induct) auto

lemma export_ops_stringable:
  "(list_all (\<lambda>(op, x). stringable x) es \<longrightarrow> (\<exists>ps'. export_ops fld es ps = Inr ps'))
   \<and> (\<not> list_all (\<lambda>(op, x). stringable x) es \<longrightarrow> export_ops fld es ps = Inl cannot_convert)"
proof (induction es arbitrary: ps)
  case Nil
  then show ?case by simp
next
  case (Cons a es)
  obtain op x where a: "a = (op, x)" by (cases a)
  show ?case
  proof (cases "stringable x")
    case True
    then obtain s where "js_to_string x = Inr s"
      using js_to_string_stringable by blast
    with True a Cons.IH [of "params_set ps (''filter['' @ fld @ '']['' @ clean_op op @ '']'') s"]
    show ?thesis by (simp add: e_bind_def)
  next
    case False
    then have "js_to_string x = Inl cannot_convert"
      using js_to_string_stringable by blast
    with False a show ?thesis by (simp add: e_bind_def)
  qed
qed

lemma js_to_string_primitive: "\<not> is_object_value v \<Longrightarrow> \<exists>s. js_to_string v = Inr s"
  by (cases v) (simp_all add: is_object_value_def)

lemma entries_primitive: "\<not> is_object_value v \<Longrightarrow> entries v = []"
  by (cases v) (simp_all add: is_object_value_def entries_def)

lemma export_fields_stringable:
  "(list_all (\<lambda>(fld, v). list_all (\<lambda>(op, x). stringable x) (entries v)) fl
      \<longrightarrow> (\<exists>ps'. export_fields fl ps = Inr ps'))
   \<and> (\<not> list_all (\<lambda>(fld, v). list_all (\<lambda>(op, x). stringable x) (entries v)) fl
      \<longrightarrow> export_fields fl ps = Inl cannot_convert)"
proof (induction fl arbitrary: ps)
  case Nil
  then show ?case by simp
next
  case (Cons a fl)
  obtain fld v where a: "a = (fld, v)" by (cases a)
  show ?case
  proof (cases "is_object_value v")
    case obj: True
    show ?thesis
    proof (cases "list_all (\<lambda>(op, x). stringable x) (entries v)")
      case True
      then obtain ps' where "export_ops fld (entries v) ps = Inr ps'"
        using export_ops_stringable by blast
      with True a obj Cons.IH [of ps'] show ?thesis by (simp add: e_bind_def)
    next
      case False
      then have "export_ops fld (entries v) ps = Inl cannot_convert"
        using export_ops_stringable by blast
      with False a obj show ?thesis by (simp add: e_bind_def)
    qed
  next
    case False
    then obtain s where "js_to_string v = Inr s"
      using js_to_string_primitive by blast
    with False a Cons.IH [of "params_set ps (''filter['' @ fld @ '']'') s"] show ?thesis
      by (simp add: e_bind_def entries_primitive)
  qed
qed

lemma export_params_renderable:
  "renderable_filter filter_arg \<Longrightarrow> \<exists>ps. export_params filter_arg = Inr ps"
  using export_fields_stringable
  by (cases filter_arg) (auto simp: renderable_filter_def export_params_def)

lemma export_params_not_renderable:
  "\<not> renderable_filter filter_arg \<Longrightarrow> export_params filter_arg = Inl cannot_convert"
  using export_fields_stringable
  by (cases filter_arg) (auto simp: renderable_filter_def export_params_def)

lemma cannot_convert_defined: "\<not> nullish cannot_convert"
  by (simp add: cannot_convert_def js_error_defined)

lemma export_params_throws: "throws (\<lambda>e. \<not> nullish e) (export_params filter_arg)"
  using export_params_renderable [of filter_arg] export_params_not_renderable [of filter_arg]
  by (cases "renderable_filter filter_arg") (auto simp: throws_def cannot_convert_defined)

lemma export_collection_try_fst:
  "fst (export_collection_try collection filter_arg w) =
     (case export_params filter_arg of
        Inl e \<Rightarrow> Inl e
      | Inr params \<Rightarrow>
          (case network w
                  (baseUrl (resolveEnv (env w)) @ ''/'' @ project (resolveEnv (env w)) @ ''/''
                     @ collection @ ''/_export'' @ query_suffix (params_toString params))
                  \<lparr>http_method = None,
                   headers = [(''Authorization'', ''Bearer '' @ apiKey (resolveEnv (env w))),
                              (''Accept'', ''application/json'')],
                   body = None\<rparr> of
             Rejected e \<Rightarrow> Inl (js_error e)
           | Resolved res \<Rightarrow>
               if \<not> ok res then Inl (upstream_failure res)
               else e_bind (res_json res) (export_normalize collection)))"
  by (simp add: export_collection_try_def Let_def fetch_def
      split: sum.split fetch_result.split)

lemma export_collection_try_sent:
  "sent (snd (export_collection_try collection filter_arg w)) =
     (case export_params filter_arg of
        Inl e \<Rightarrow> sent w
      | Inr params \<Rightarrow>
          sent w @ [(baseUrl (resolveEnv (env w)) @ ''/'' @ project (resolveEnv (env w)) @ ''/''
                       @ collection @ ''/_export'' @ query_suffix (params_toString params),
                     \<lparr>http_method = None,
                      headers = [(''Authorization'', ''Bearer '' @ apiKey (resolveEnv (env w))),
                                 (''Accept'', ''application/json'')],
                      body = None\<rparr>)])"
  by (simp add: export_collection_try_def Let_def fetch_def
      split: sum.split fetch_result.split)

lemma documents_length:
  fixes d :: json
  defines "count \<equiv> case get_prop (Some d) ''length'' of Inr c \<Rightarrow> c | Inl e \<Rightarrow> None"
  shows "(\<forall>xs. d = JArray xs \<longrightarrow> count = Some (JNumber (int (length xs))))
       \<and> (\<forall>s. d = JString s \<longrightarrow> count = Some (JNumber (int (length s))))
       \<and> (\<forall>kvs. d = JObject kvs \<longrightarrow> count = map_of kvs ''length'')
       \<and> (\<forall>b. d = JBool b \<longrightarrow> count = None)
       \<and> (\<forall>n. d = JNumber n \<longrightarrow> count = None)"
  unfolding count_def by (cases d) simp_all

section \<open>Facts about every handler\<close>

lemmas try_defs =
  create_document_try_def get_document_try_def list_documents_try_def
  update_document_try_def patch_document_try_def delete_document_try_def
  count_documents_try_def json_patch_document_try_def list_collections_try_def
  search_documents_try_def import_documents_try_def
  get_schema_try_def set_schema_try_def remove_schema_try_def validate_document_try_def
  list_versions_try_def get_version_try_def restore_version_try_def diff_versions_try_def
  create_webhook_try_def list_webhooks_try_def get_webhook_try_def update_webhook_try_def
  delete_webhook_try_def test_webhook_try_def semantic_search_try_def
  store_with_embedding_try_def

lemmas catch_defs =
  create_document_catch_def get_document_catch_def list_documents_catch_def
  update_document_catch_def patch_document_catch_def delete_document_catch_def
  count_documents_catch_def json_patch_document_catch_def list_collections_catch_def
  search_documents_catch_def import_documents_catch_def export_collection_catch_def
  get_schema_catch_def set_schema_catch_def remove_schema_catch_def
  validate_document_catch_def list_versions_catch_def get_version_catch_def
  restore_version_catch_def diff_versions_catch_def create_webhook_catch_def
  list_webhooks_catch_def get_webhook_catch_def update_webhook_catch_def
  delete_webhook_catch_def test_webhook_catch_def semantic_search_catch_def
  store_with_embedding_catch_def



lemma try_returns_success: "returns success_shape (fst (tool_try c w))"
  by (cases c)
     (simp_all add: try_defs export_collection_try_fst fst_await Let_def returns_e_bind
        returns_return_success export_normalize_returns inline_fetch_fst returns_Inl
        split: sum.split fetch_result.split)

lemma export_params_Inl_defined: "export_params filter_arg = Inl e \<Longrightarrow> \<not> nullish e"
  using export_params_throws [of filter_arg] by (simp add: throws_def)

lemma try_throws_defined:
  assumes "\<forall>collection m args. db w collection m args \<noteq> Inl None \<and> db w collection m args \<noteq> Inl (Some JNull)"
  shows "throws (\<lambda>e. \<not> nullish e) (fst (tool_try c w))"
proof -
  have sdk: "throws (\<lambda>e. \<not> nullish e) (db w collection m args)" for collection m args
    using assms [rule_format, of collection m args]
    by (cases "db w collection m args") (auto simp: throws_def nullish_def)
  show ?thesis
    by (cases c)
       (simp_all add: try_defs export_collection_try_fst fst_await fst_sdk Let_def sdk
          throws_e_bind throws_return_success
          apiFetch_throws webhookFetch_throws versionFetch_throws inline_fetch_fst
          res_json_throws export_normalize_throws throws_Inl js_error_defined
          upstream_failure_defined export_params_Inl_defined
          split: sum.split fetch_result.split)
qed

subsection \<open>The outcome of the backing call decides what the handler catches\<close>

lemma try_sdk_rejects:
  assumes "sdk_backed c" and "\<forall>collection m args. db w collection m args = Inl e"
  shows "fst (tool_try c w) = Inl e"
  using assms
  by (cases c) (simp_all add: try_defs fst_await fst_sdk Let_def e_bind_def)

lemma try_sdk_resolves:
  assumes "sdk_backed c" and "\<forall>collection m args. db w collection m args = Inr v"
  shows "yields success_shape (fst (tool_try c w))"
  using assms
  by (cases c)
     (simp_all add: try_defs fst_await fst_sdk Let_def e_bind_def yields_def return_success_def
        success_shape_success)

lemma try_sdk_sends_nothing: "sdk_backed c \<Longrightarrow> snd (tool_try c w) = w"
  by (cases c) (simp_all add: try_defs snd_await snd_sdk Let_def)

lemma try_sdk_env:
  "sdk_backed c \<Longrightarrow> fst (tool_try c (w\<lparr>env := e\<rparr>)) = fst (tool_try c w)"
  by (cases c) (simp_all add: try_defs fst_await fst_sdk Let_def)

lemma apiFetch_fst:
  "fst (apiFetch url key meth b w) =
     (case network w url
             \<lparr>http_method = Some (case meth of None \<Rightarrow> ''GET'' | Some x \<Rightarrow> x),
              headers = [(''Authorization'', ''Bearer '' @ key),
                         (''Content-Type'', ''application/json'')],
              body = (if b \<noteq> None \<and> meth \<in> {Some ''POST'', Some ''PUT'', Some ''PATCH''}
                      then b else None)\<rparr> of
        Rejected e \<Rightarrow> Inl (js_error e)
      | Resolved res \<Rightarrow>
          if \<not> ok res then Inl (upstream_failure res)
          else if status res = 204 then Inr (Some (JObject [(''ok'', JBool True)]))
          else res_json res)"
  by (cases meth) (auto simp: apiFetch_def fetch_def Let_def split: fetch_result.splits)

lemma webhookFetch_fst:
  "fst (webhookFetch url key meth b w) =
     (case network w url
             \<lparr>http_method = Some (case meth of None \<Rightarrow> ''GET'' | Some x \<Rightarrow> x),
              headers = [(''Authorization'', ''Bearer '' @ key),
                         (''Content-Type'', ''application/json'')],
              body = (if b \<noteq> None \<and> meth \<in> {Some ''POST'', Some ''PUT'', Some ''PATCH''}
                      then b else None)\<rparr> of
        Rejected e \<Rightarrow> Inl (js_error e)
      | Resolved res \<Rightarrow>
          if \<not> ok res then Inl (upstream_failure res)
          else if status res = 204 then Inr (Some (JObject [(''ok'', JBool True)]))
          else res_json res)"
  by (cases meth) (auto simp: webhookFetch_def fetch_def Let_def split: fetch_result.splits)

lemma versionFetch_fst:
  "fst (versionFetch url key meth w) =
     (case network w url
             \<lparr>http_method = meth,
              headers = [(''Authorization'', ''Bearer '' @ key),
                         (''Content-Type'', ''application/json'')],
              body = None\<rparr> of
        Rejected e \<Rightarrow> Inl (js_error e)
      | Resolved res \<Rightarrow>
          if \<not> ok res then Inl (upstream_failure res)
          else if status res = 204 then Inr (Some (JObject [(''ok'', JBool True)]))
          else res_json res)"
  by (auto simp: versionFetch_def fetch_def Let_def split: fetch_result.splits)

lemmas rest_fst =
  apiFetch_fst webhookFetch_fst versionFetch_fst inline_fetch_fst export_collection_try_fst

lemma try_rest_rejected:
  assumes "\<not> sdk_backed c" and "renderable c"
    and "\<forall>url opts. network w url opts = Rejected msg"
  shows "fst (tool_try c w) = Inl (js_error msg)"
proof -
  obtain ps where "\<forall>collection filter_arg. c = Export_collection collection filter_arg
      \<longrightarrow> export_params filter_arg = Inr ps"
    using assms(2) export_params_renderable by (cases c) (auto simp: renderable_def)
  with assms(1,3) show ?thesis
    by (cases c) (simp_all add: try_defs fst_await Let_def rest_fst e_bind_def)
qed

lemma try_rest_not_ok:
  assumes "\<not> sdk_backed c" and "renderable c"
    and "\<forall>url opts. network w url opts = Resolved res" and "\<not> ok res"
  shows "fst (tool_try c w) = Inl (upstream_failure res)"
proof -
  obtain ps where "\<forall>collection filter_arg. c = Export_collection collection filter_arg
      \<longrightarrow> export_params filter_arg = Inr ps"
    using assms(2) export_params_renderable by (cases c) (auto simp: renderable_def)
  with assms(1,3,4) show ?thesis
    by (cases c) (simp_all add: try_defs fst_await Let_def rest_fst e_bind_def)
qed

lemma try_rest_unparsable:
  assumes "\<not> sdk_backed c" and "renderable c"
    and "\<forall>url opts. network w url opts = Resolved res" and "ok res" and "status res \<noteq> 204"
    and "json res = Inl m"
  shows "fst (tool_try c w) = Inl (js_error m)"
proof -
  obtain ps where "\<forall>collection filter_arg. c = Export_collection collection filter_arg
      \<longrightarrow> export_params filter_arg = Inr ps"
    using assms(2) export_params_renderable by (cases c) (auto simp: renderable_def)
  with assms(1,3,4,5,6) show ?thesis
    by (cases c) (simp_all add: try_defs fst_await Let_def rest_fst e_bind_def res_json_def)
qed

lemma try_not_renderable:
  assumes "\<not> renderable c"
  shows "fst (tool_try c w) = Inl cannot_convert \<and> snd (tool_try c w) = w"
proof -
  from assms obtain collection filter_arg where c: "c = Export_collection collection filter_arg"
    by (cases c) (simp_all add: renderable_def)
  with assms have "export_params filter_arg = Inl cannot_convert"
    by (simp add: renderable_def export_params_not_renderable)
  with c show ?thesis
    by (simp add: export_collection_try_def Let_def)
qed

text \<open>
  The request of a handler that calls the REST API: one request, to a URL under the
  base URL and the project of the environment, bearing the API key of the environment.
\<close>

lemma try_rest_request:
  assumes "\<not> sdk_backed c" and "renderable c"
  shows "\<exists>rest opts.
           sent (snd (tool_try c w)) =
             sent w @ [(baseUrl (resolveEnv (env w)) @ ''/'' @ project (resolveEnv (env w)) @ rest,
                        opts)]
           \<and> map_of (headers opts) ''Authorization''
               = Some (''Bearer '' @ apiKey (resolveEnv (env w)))"
proof -
  obtain ps where "\<forall>collection filter_arg. c = Export_collection collection filter_arg
      \<longrightarrow> export_params filter_arg = Inr ps"
    using assms(2) export_params_renderable by (cases c) (auto simp: renderable_def)
  with assms(1) show ?thesis
    by (cases c)
       (simp_all add: try_defs snd_await Let_def apiFetch_sent webhookFetch_sent
          versionFetch_sent inline_fetch_sent export_collection_try_sent)
qed

lemma catch_classifies_defined:
  assumes "get_prop e ''status'' = Inr st" and "get_prop e ''message'' = Inr msg"
  shows "case tool_catch c e of Inr r \<Rightarrow> error_with_code (classify c e) r | Inl x \<Rightarrow> False"
  using assms
  by (cases c)
     (simp_all add: catch_defs classify_def classify_with_def e_bind_def return_error_def
        return_error_or_def split: option.split json.split)

lemma catch_classifies:
  assumes "\<not> nullish e"
  shows "\<exists>r. tool_catch c e = Inr r \<and> error_with_code (classify c e) r"
proof -
  obtain st msg where "get_prop e ''status'' = Inr st" and "get_prop e ''message'' = Inr msg"
    using assms get_prop_defined by blast
  from catch_classifies_defined [OF this, of c] show ?thesis
    by (cases "tool_catch c e") simp_all
qed

lemma catch_nullish: "nullish e \<Longrightarrow> \<exists>x. tool_catch c e = Inl x"
  by (cases c) (auto simp: catch_defs nullish_def e_bind_def return_error_or_def)

lemma catch_returns_error: "returns error_shape (tool_catch c e)"
proof (cases "nullish e")
  case True
  then show ?thesis using catch_nullish [of e c] by (auto simp: returns_def)
next
  case False
  then show ?thesis using catch_classifies [of e c]
    by (auto simp: returns_def error_with_code_def)
qed


lemma classify_unmatched:
  assumes "\<forall>n. get_prop e ''status'' = Inr (Some (JNumber n)) \<longrightarrow> n \<notin> fst ` set (decision_table c)"
  shows "classify c e = fallback_code c"
proof -
  have "map_of (decision_table c) n = None" if "get_prop e ''status'' = Inr (Some (JNumber n))" for n
    using assms that by (simp add: map_of_eq_None_iff)
  then show ?thesis
    by (auto simp: classify_def classify_with_def split: sum.splits option.splits json.splits)
qed


lemma unmatched_classify: "unmatched c e \<Longrightarrow> classify c e = fallback_code c"
  by (rule classify_unmatched) (force simp: unmatched_def)

lemma handle_unmatched:
  assumes "fst (tool_try c w) = Inl e" and "\<not> nullish e" and "unmatched c e"
  shows "yields (error_with_code (fallback_code c)) (fst (handle c w))"
proof -
  obtain r where r: "tool_catch c e = Inr r" "error_with_code (classify c e) r"
    using assms(2) catch_classifies by blast
  with assms(1,3) show ?thesis
    by (simp add: fst_handle yields_def unmatched_classify)
qed

lemma unmatched_js_error: "unmatched c (js_error m)"
  by (simp add: unmatched_def js_error_def)

lemma unmatched_upstream_failure:
  assumes "json r = Inr JNull \<or> status r \<notin> set (map fst (decision_table c))"
  shows "unmatched c (upstream_failure r)"
proof (cases "json r = Inr JNull")
  case True
  then show ?thesis
    by (simp add: unmatched_def upstream_failure_def res_json_def Let_def js_error_def)
next
  case False
  with assms show ?thesis
    by (simp add: unmatched_def upstream_failure_status)
qed

lemma tool_try_new_requests:
  assumes "resolveEnv (env w1) = resolveEnv (env w2)"
  shows "drop (length (sent w1)) (sent (snd (tool_try c w1)))
         = drop (length (sent w2)) (sent (snd (tool_try c w2)))"
  using assms
  by (cases c)
     (simp_all add: try_defs snd_await snd_sdk Let_def apiFetch_sent webhookFetch_sent
        versionFetch_sent inline_fetch_sent export_collection_try_sent split: sum.split)

lemma tool_try_fst_env:
  assumes "resolveEnv (env w1) = resolveEnv (env w2)" and "network w1 = network w2"
    and "db w1 = db w2"
  shows "fst (tool_try c w1) = fst (tool_try c w2)"
  using assms(1,3)
  by (cases c)
     (simp_all add: try_defs fst_await fst_sdk Let_def inline_fetch_fst assms(2)
        export_collection_try_fst
        apiFetch_network [OF assms(2)] webhookFetch_network [OF assms(2)]
        versionFetch_network [OF assms(2)] split: sum.split)

lemma resolveEnv_cong:
  assumes "\<forall>k \<in> set [''JSONDB_API_KEY'', ''JSONDB_PROJECT'', ''JSONDB_NAMESPACE'', ''JSONDB_BASE_URL'']. e1 k = e2 k"
  shows "resolveEnv e1 = resolveEnv e2"
  using assms by (simp add: resolveEnv_def)

subsection \<open>The filter compiler and its reference definition\<close>

lemma opMap_lookup:
  "op \<noteq> ''eq'' \<Longrightarrow>
   map_of opMap op =
     (if op \<in> set [''neq'', ''gt'', ''gte'', ''lt'', ''lte'', ''contains'', ''in'', ''exists'']
      then Some (''$'' @ op) else None)"
  by (auto simp: opMap_def)

lemma buildFilterObject_loop_reference:
  "\<forall>f \<in> set filters. field f \<noteq> ''__proto__'' \<and> operator f \<notin> set object_prototype_members \<Longrightarrow>
   map_of (buildFilterObject_loop filters acc)
     = foldl (\<lambda>m f. m(field f \<mapsto> reference_value f)) (map_of acc) filters"
proof (induction filters arbitrary: acc)
  case Nil
  then show ?case by simp
next
  case (Cons f fs)
  let ?acc = "if operator f = ''eq'' then filter_assign acc (field f) (filter_value f)
        else case opMap_get (operator f) of
               Some sdkOp \<Rightarrow> filter_assign acc (field f) (JObject [(sdkOp, filter_value f)])
             | None \<Rightarrow> filter_assign acc (field f) (filter_value f)"
  have f: "field f \<noteq> ''__proto__''" "operator f \<notin> set object_prototype_members"
    using Cons.prems by auto
  have step: "map_of ?acc = (map_of acc)(field f \<mapsto> reference_value f)"
    using f
    by (auto simp: filter_assign_def map_of_obj_set opMap_get_def reference_value_def opMap_lookup
        simp del: set_simps split: option.splits)
  show ?case
    using Cons.IH [of ?acc] Cons.prems
    by (simp only: buildFilterObject_loop.simps step) simp
qed

lemma buildFilterObject_refines_reference:
  "\<forall>f \<in> set filters. field f \<noteq> ''__proto__'' \<and> operator f \<notin> set object_prototype_members \<Longrightarrow>
   map_of (buildFilterObject filters) = reference_compile filters"
  by (simp add: buildFilterObject_def reference_compile_def buildFilterObject_loop_reference)
section \<open>The claims\<close>




text \<open>
  Claim C2. Every response produced by the bridge has exactly one content block. A
  response built by \<open>error\<close> has the error flag set and its content decodes to
  \<open>{"error": {"code", "message", "suggestion"}}\<close>; a response built by \<open>success\<close>
  has no error flag; and every response that a handler returns has one of these two
  shapes.
\<close>

theorem response_shape:
  "success_shape (success d)
   \<and> error_shape (error code m s)
   \<and> decoded (error code m s) =
       Some (JObject [(''error'',
               JObject [(''code'', JString code), (''message'', m), (''suggestion'', JString s)])])
   \<and> (fst (handle c w) = Inr r \<longrightarrow>
        length (content r) = 1
        \<and> (isError r = None \<or> isError r = Some True \<and> has_error_payload r))"
proof -
  have "length (content r) = 1 \<and> (isError r = None \<or> isError r = Some True \<and> has_error_payload r)"
    if "fst (handle c w) = Inr r"
  proof (cases "fst (tool_try c w)")
    case (Inl e)
    with that have "tool_catch c e = Inr r" by (simp add: fst_handle)
    with catch_returns_error [of c e] show ?thesis
      by (simp add: returns_def error_shape_def)
  next
    case (Inr r')
    with that have "r' = r" by (simp add: fst_handle)
    with Inr try_returns_success [of c w] show ?thesis
      by (simp add: returns_def success_shape_def)
  qed
  then show ?thesis
    by (simp add: success_shape_success error_shape_error decoded_error)
qed

theorem response_shape_witness:
  "fst (handle (Get_document ''users'' ''abc'')
         (world_of sample_env (Rejected ''offline'') (Inr (Some (JObject [(''_id'', JString ''abc'')])))))
     = Inr (success (Some (JObject [(''_id'', JString ''abc'')])))
   \<and> length (content (success (Some (JObject [(''_id'', JString ''abc'')])))) = 1
   \<and> (isError (success (Some (JObject [(''_id'', JString ''abc'')]))) = None
      \<or> isError (success (Some (JObject [(''_id'', JString ''abc'')]))) = Some True
        \<and> has_error_payload (success (Some (JObject [(''_id'', JString ''abc'')]))))"
proof -
  have h: "fst (handle (Get_document ''users'' ''abc'')
         (world_of sample_env (Rejected ''offline'') (Inr (Some (JObject [(''_id'', JString ''abc'')])))))
     = Inr (success (Some (JObject [(''_id'', JString ''abc'')])))"
    by (simp add: fst_handle get_document_try_def fst_await fst_sdk world_of_def e_bind_def
        return_success_def)
  from response_shape [of _ _ _ _ "Get_document ''users'' ''abc''" _ _] h show ?thesis
    by blast
qed

text \<open>
  Claim C3, as amended. The outcomes of a backing call are JSON values: a promise
  resolves with one, or rejects with one, an \<open>Error\<close> being the object that holds its
  message. For every operation handler and every such outcome in which the SDK client
  does not reject with \<open>null\<close> or \<open>undefined\<close>, the handler returns a response and
  throws nothing across the tool boundary. A failure that the decision table does not
  match is converted to the error with the handler's fallback code: a rejection of the
  SDK client that has no numeric status or a status that is not in the table; a
  \<open>fetch\<close> that rejects; a response that is not ok with a status that is not in the
  table, or with the body \<open>null\<close>; a response that is ok with a body that is not
  JSON; and a filter of export_collection that cannot be put into the query.
\<close>

theorem handler_returns_response:
  assumes "\<forall>collection m args.
             db w collection m args \<noteq> Inl None \<and> db w collection m args \<noteq> Inl (Some JNull)"
  shows "(\<exists>r. fst (handle c w) = Inr r)
       \<and> (sdk_backed c \<and> (\<forall>collection m args. db w collection m args = Inl e) \<and> unmatched c e
            \<longrightarrow> yields (error_with_code (fallback_code c)) (fst (handle c w)))
       \<and> (\<not> sdk_backed c \<and> renderable c \<and> (\<forall>url opts. network w url opts = Rejected msg)
            \<longrightarrow> yields (error_with_code (fallback_code c)) (fst (handle c w)))
       \<and> (\<not> sdk_backed c \<and> renderable c \<and> (\<forall>url opts. network w url opts = Resolved res)
            \<and> \<not> ok res
            \<and> (json res = Inr JNull \<or> status res \<notin> set (map fst (decision_table c)))
            \<longrightarrow> yields (error_with_code (fallback_code c)) (fst (handle c w)))
       \<and> (\<not> sdk_backed c \<and> renderable c \<and> (\<forall>url opts. network w url opts = Resolved res)
            \<and> ok res \<and> status res \<noteq> 204 \<and> json res = Inl m
            \<longrightarrow> yields (error_with_code (fallback_code c)) (fst (handle c w)))
       \<and> (\<not> renderable c
            \<longrightarrow> yields (error_with_code (fallback_code c)) (fst (handle c w)))"
proof -
  have defined: "throws (\<lambda>e. \<not> nullish e) (fst (tool_try c w))"
    using assms by (rule try_throws_defined)
  have returns_response: "\<exists>r. fst (handle c w) = Inr r"
  proof (cases "fst (tool_try c w)")
    case (Inl x)
    with defined have "\<not> nullish x"
      by (simp add: throws_def)
    then obtain r where "tool_catch c x = Inr r"
      using catch_classifies by blast
    with Inl show ?thesis
      by (simp add: fst_handle)
  next
    case (Inr r)
    then show ?thesis
      by (simp add: fst_handle)
  qed
  have fallback: "yields (error_with_code (fallback_code c)) (fst (handle c w))"
    if "fst (tool_try c w) = Inl x" and "unmatched c x" for x
  proof -
    from defined that(1) have "\<not> nullish x"
      by (simp add: throws_def)
    with that(1) show ?thesis
      using that(2) by (rule handle_unmatched)
  qed
  have sdk_case: "yields (error_with_code (fallback_code c)) (fst (handle c w))"
    if "sdk_backed c" and "\<forall>collection m args. db w collection m args = Inl e"
      and "unmatched c e"
    using that by (intro fallback [of e] try_sdk_rejects)
  have rejected_case: "yields (error_with_code (fallback_code c)) (fst (handle c w))"
    if "\<not> sdk_backed c" and "renderable c" and "\<forall>url opts. network w url opts = Rejected msg"
    using that by (intro fallback [of "js_error msg"] try_rest_rejected unmatched_js_error)
  have not_ok_case: "yields (error_with_code (fallback_code c)) (fst (handle c w))"
    if "\<not> sdk_backed c" and "renderable c" and "\<forall>url opts. network w url opts = Resolved res"
      and "\<not> ok res"
      and "json res = Inr JNull \<or> status res \<notin> set (map fst (decision_table c))"
    using that
    by (intro fallback [of "upstream_failure res"] try_rest_not_ok unmatched_upstream_failure)
  have unparsable_case: "yields (error_with_code (fallback_code c)) (fst (handle c w))"
    if "\<not> sdk_backed c" and "renderable c" and "\<forall>url opts. network w url opts = Resolved res"
      and "ok res" and "status res \<noteq> 204" and "json res = Inl m"
    using that by (intro fallback [of "js_error m"] try_rest_unparsable unmatched_js_error)
  have query_case: "yields (error_with_code (fallback_code c)) (fst (handle c w))"
    if "\<not> renderable c"
    using try_not_renderable [OF that, of w]
    by (intro fallback [of cannot_convert]) (simp_all add: cannot_convert_def unmatched_js_error)
  from returns_response sdk_case rejected_case not_ok_case unparsable_case query_case
  show ?thesis
    by blast
qed

text \<open>
  One call for each kind of unmatched failure: the SDK client rejects with status 500;
  \<open>fetch\<close> rejects; the REST API answers with status 500; it answers with status 200
  and a body that is not JSON; the filter of an export holds an object with a property
  \<open>toString\<close>.
\<close>

theorem handler_returns_response_witness:
  "(\<forall>collection m args.
      db (world_of sample_env (Rejected ''offline'') (Inl (Some (JObject [(''status'', JNumber 500), (''message'', JString ''boom'')])))) collection m args \<noteq> Inl None
      \<and> db (world_of sample_env (Rejected ''offline'') (Inl (Some (JObject [(''status'', JNumber 500), (''message'', JString ''boom'')])))) collection m args \<noteq> Inl (Some JNull))
   \<and> (\<forall>collection m args. db (world_of sample_env (Rejected ''offline'') (Inl (Some (JObject [(''status'', JNumber 500), (''message'', JString ''boom'')])))) collection m args = Inl (Some (JObject [(''status'', JNumber 500), (''message'', JString ''boom'')])))
   \<and> unmatched (Create_document ''users'' [] None) (Some (JObject [(''status'', JNumber 500), (''message'', JString ''boom'')]))
   \<and> yields (error_with_code ''CREATE_FAILED'') (fst (handle (Create_document ''users'' [] None) (world_of sample_env (Rejected ''offline'') (Inl (Some (JObject [(''status'', JNumber 500), (''message'', JString ''boom'')]))))))
   \<and> (\<forall>collection m args.
      db (world_of sample_env (Rejected ''offline'') (Inr None)) collection m args \<noteq> Inl None
      \<and> db (world_of sample_env (Rejected ''offline'') (Inr None)) collection m args \<noteq> Inl (Some JNull))
   \<and> (\<forall>url opts. network (world_of sample_env (Rejected ''offline'') (Inr None)) url opts = Rejected ''offline'')
   \<and> yields (error_with_code ''LIST_WEBHOOKS_FAILED'') (fst (handle (List_webhooks ''users'') (world_of sample_env (Rejected ''offline'') (Inr None))))
   \<and> (\<forall>url opts. network (world_of sample_env (Resolved \<lparr>status = 500, statusText = ''Internal Server Error'', json = Inr (JObject [(''error'', JString ''down'')])\<rparr>) (Inr None)) url opts = Resolved \<lparr>status = 500, statusText = ''Internal Server Error'', json = Inr (JObject [(''error'', JString ''down'')])\<rparr>)
   \<and> \<not> ok \<lparr>status = 500, statusText = ''Internal Server Error'', json = Inr (JObject [(''error'', JString ''down'')])\<rparr>
   \<and> status \<lparr>status = 500, statusText = ''Internal Server Error'', json = Inr (JObject [(''error'', JString ''down'')])\<rparr> \<notin> set (map fst (decision_table (Semantic_search ''articles'' ''test'' None None None)))
   \<and> yields (error_with_code ''SEARCH_FAILED'') (fst (handle (Semantic_search ''articles'' ''test'' None None None) (world_of sample_env (Resolved \<lparr>status = 500, statusText = ''Internal Server Error'', json = Inr (JObject [(''error'', JString ''down'')])\<rparr>) (Inr None))))
   \<and> (\<forall>url opts. network (world_of sample_env (Resolved \<lparr>status = 200, statusText = ''OK'', json = Inl ''Unexpected token < in JSON at position 0''\<rparr>) (Inr None)) url opts = Resolved \<lparr>status = 200, statusText = ''OK'', json = Inl ''Unexpected token < in JSON at position 0''\<rparr>)
   \<and> ok \<lparr>status = 200, statusText = ''OK'', json = Inl ''Unexpected token < in JSON at position 0''\<rparr>
   \<and> yields (error_with_code ''LIST_COLLECTIONS_FAILED'') (fst (handle (List_collections) (world_of sample_env (Resolved \<lparr>status = 200, statusText = ''OK'', json = Inl ''Unexpected token < in JSON at position 0''\<rparr>) (Inr None))))
   \<and> \<not> renderable (Export_collection ''users'' (Some [(''age'', JObject [(''$gt'', JObject [(''toString'', JNumber 1)])])]))
   \<and> yields (error_with_code ''EXPORT_FAILED'') (fst (handle (Export_collection ''users'' (Some [(''age'', JObject [(''$gt'', JObject [(''toString'', JNumber 1)])])])) (world_of sample_env (Resolved \<lparr>status = 200, statusText = ''OK'', json = Inr (JArray [])\<rparr>) (Inr None))))"
proof -
  have h1: "(\<forall>collection m args.
      db (world_of sample_env (Rejected ''offline'') (Inl (Some (JObject [(''status'', JNumber 500), (''message'', JString ''boom'')])))) collection m args \<noteq> Inl None
      \<and> db (world_of sample_env (Rejected ''offline'') (Inl (Some (JObject [(''status'', JNumber 500), (''message'', JString ''boom'')])))) collection m args \<noteq> Inl (Some JNull))"
    by (simp add: world_of_def)
  have a1: "sdk_backed (Create_document ''users'' [] None)
      \<and> (\<forall>collection m args. db (world_of sample_env (Rejected ''offline'') (Inl (Some (JObject [(''status'', JNumber 500), (''message'', JString ''boom'')])))) collection m args = Inl (Some (JObject [(''status'', JNumber 500), (''message'', JString ''boom'')])))
      \<and> unmatched (Create_document ''users'' [] None) (Some (JObject [(''status'', JNumber 500), (''message'', JString ''boom'')]))"
    by (simp add: world_of_def unmatched_def)
  note r1 = handler_returns_response [OF h1, of "Create_document ''users'' [] None" "Some (JObject [(''status'', JNumber 500), (''message'', JString ''boom'')])",
      THEN conjunct2, THEN conjunct1, rule_format, OF a1]
  have h2: "(\<forall>collection m args.
      db (world_of sample_env (Rejected ''offline'') (Inr None)) collection m args \<noteq> Inl None
      \<and> db (world_of sample_env (Rejected ''offline'') (Inr None)) collection m args \<noteq> Inl (Some JNull))"
    by (simp add: world_of_def)
  have a2: "\<not> sdk_backed (List_webhooks ''users'') \<and> renderable (List_webhooks ''users'')
      \<and> (\<forall>url opts. network (world_of sample_env (Rejected ''offline'') (Inr None)) url opts = Rejected ''offline'')"
    by (simp add: world_of_def renderable_def)
  note r2 = handler_returns_response [OF h2, of "List_webhooks ''users''" _ "''offline''",
      THEN conjunct2, THEN conjunct2, THEN conjunct1, rule_format, OF a2]
  have h3: "(\<forall>collection m args.
      db (world_of sample_env (Resolved \<lparr>status = 500, statusText = ''Internal Server Error'', json = Inr (JObject [(''error'', JString ''down'')])\<rparr>) (Inr None)) collection m args \<noteq> Inl None
      \<and> db (world_of sample_env (Resolved \<lparr>status = 500, statusText = ''Internal Server Error'', json = Inr (JObject [(''error'', JString ''down'')])\<rparr>) (Inr None)) collection m args \<noteq> Inl (Some JNull))"
    by (simp add: world_of_def)
  have a3: "\<not> sdk_backed (Semantic_search ''articles'' ''test'' None None None) \<and> renderable (Semantic_search ''articles'' ''test'' None None None)
      \<and> (\<forall>url opts. network (world_of sample_env (Resolved \<lparr>status = 500, statusText = ''Internal Server Error'', json = Inr (JObject [(''error'', JString ''down'')])\<rparr>) (Inr None)) url opts = Resolved \<lparr>status = 500, statusText = ''Internal Server Error'', json = Inr (JObject [(''error'', JString ''down'')])\<rparr>)
      \<and> \<not> ok \<lparr>status = 500, statusText = ''Internal Server Error'', json = Inr (JObject [(''error'', JString ''down'')])\<rparr>
      \<and> (json \<lparr>status = 500, statusText = ''Internal Server Error'', json = Inr (JObject [(''error'', JString ''down'')])\<rparr> = Inr JNull
         \<or> status \<lparr>status = 500, statusText = ''Internal Server Error'', json = Inr (JObject [(''error'', JString ''down'')])\<rparr> \<notin> set (map fst (decision_table (Semantic_search ''articles'' ''test'' None None None))))"
    by (simp add: world_of_def renderable_def ok_def)
  note r3 = handler_returns_response [OF h3, of "Semantic_search ''articles'' ''test'' None None None" _ _ "\<lparr>status = 500, statusText = ''Internal Server Error'', json = Inr (JObject [(''error'', JString ''down'')])\<rparr>",
      THEN conjunct2, THEN conjunct2, THEN conjunct2, THEN conjunct1, rule_format, OF a3]
  have h4: "(\<forall>collection m args.
      db (world_of sample_env (Resolved \<lparr>status = 200, statusText = ''OK'', json = Inl ''Unexpected token < in JSON at position 0''\<rparr>) (Inr None)) collection m args \<noteq> Inl None
      \<and> db (world_of sample_env (Resolved \<lparr>status = 200, statusText = ''OK'', json = Inl ''Unexpected token < in JSON at position 0''\<rparr>) (Inr None)) collection m args \<noteq> Inl (Some JNull))"
    by (simp add: world_of_def)
  have a4: "\<not> sdk_backed (List_collections) \<and> renderable (List_collections)
      \<and> (\<forall>url opts. network (world_of sample_env (Resolved \<lparr>status = 200, statusText = ''OK'', json = Inl ''Unexpected token < in JSON at position 0''\<rparr>) (Inr None)) url opts = Resolved \<lparr>status = 200, statusText = ''OK'', json = Inl ''Unexpected token < in JSON at position 0''\<rparr>)
      \<and> ok \<lparr>status = 200, statusText = ''OK'', json = Inl ''Unexpected token < in JSON at position 0''\<rparr> \<and> status \<lparr>status = 200, statusText = ''OK'', json = Inl ''Unexpected token < in JSON at position 0''\<rparr> \<noteq> 204
      \<and> json \<lparr>status = 200, statusText = ''OK'', json = Inl ''Unexpected token < in JSON at position 0''\<rparr> = Inl ''Unexpected token < in JSON at position 0''"
    by (simp add: world_of_def renderable_def ok_def)
  note r4 = handler_returns_response [OF h4, of "List_collections" _ _ "\<lparr>status = 200, statusText = ''OK'', json = Inl ''Unexpected token < in JSON at position 0''\<rparr>"
        "''Unexpected token < in JSON at position 0''",
      THEN conjunct2, THEN conjunct2, THEN conjunct2, THEN conjunct2, THEN conjunct1,
      rule_format, OF a4]
  have h5: "(\<forall>collection m args.
      db (world_of sample_env (Resolved \<lparr>status = 200, statusText = ''OK'', json = Inr (JArray [])\<rparr>) (Inr None)) collection m args \<noteq> Inl None
      \<and> db (world_of sample_env (Resolved \<lparr>status = 200, statusText = ''OK'', json = Inr (JArray [])\<rparr>) (Inr None)) collection m args \<noteq> Inl (Some JNull))"
    by (simp add: world_of_def)
  have a5: "\<not> renderable (Export_collection ''users'' (Some [(''age'', JObject [(''$gt'', JObject [(''toString'', JNumber 1)])])]))"
    by (simp add: renderable_def renderable_filter_def entries_def)
  note r5 = handler_returns_response [OF h5, of "Export_collection ''users'' (Some [(''age'', JObject [(''$gt'', JObject [(''toString'', JNumber 1)])])])",
      THEN conjunct2, THEN conjunct2, THEN conjunct2, THEN conjunct2, THEN conjunct2,
      rule_format, OF a5]
  from r1 r2 r3 r4 r5 a5 show ?thesis
    by (simp add: world_of_def ok_def unmatched_def)
qed

text \<open>
  Claim C3 as stated fails: when the SDK client rejects with \<open>null\<close>, the \<open>catch\<close>
  block of create_document reads \<open>e.status\<close> of \<open>null\<close> and the handler throws a
  TypeError.
\<close>

theorem handler_throws_counterexample:
  "fst (handle (Create_document ''users'' [(''name'', JString ''test'')] None)
         (world_of sample_env (Rejected ''offline'') (Inl (Some JNull))))
   = Inl (js_error (''Cannot read properties of null (reading '' @ quoted ''status'' @ '')''))"
  by (simp add: fst_handle create_document_try_def create_document_catch_def fst_await fst_sdk
      world_of_def e_bind_def)


text \<open>
  Claim C4. The filter compiler is meant to equal the reference definition on every
  input list. It does on every list whose fields are not \<open>__proto__\<close> and whose
  operators are not names of \<open>Object.prototype\<close> members: this is
  \<open>buildFilterObject_refines_reference\<close>. On an operator such as \<open>constructor\<close>,
  which is not recognised, the code does not fall back to the raw value: it finds the
  inherited member in \<open>opMap\<close> and wraps the value under that member's string form.
  An entry on the field \<open>__proto__\<close> leaves no entry in the result.
\<close>

theorem buildFilterObject_inherited_operator:
  "buildFilterObject [\<lparr>field = ''x'', operator = ''constructor'', filter_value = JNumber 42\<rparr>]
     = [(''x'', JObject [(''function Object() { [native code] }'', JNumber 42)])]
   \<and> reference_compile [\<lparr>field = ''x'', operator = ''constructor'', filter_value = JNumber 42\<rparr>] ''x''
     = Some (JNumber 42)
   \<and> buildFilterObject [\<lparr>field = ''__proto__'', operator = ''eq'', filter_value = JNumber 1\<rparr>] = []
   \<and> reference_compile [\<lparr>field = ''__proto__'', operator = ''eq'', filter_value = JNumber 1\<rparr>]
         ''__proto__''
     = Some (JNumber 1)"
  by (simp add: buildFilterObject_def opMap_get_def opMap_def object_prototype_members_def
      inherited_key_def filter_assign_def reference_compile_def reference_value_def)

text \<open>
  Claim C5, as amended. The REST client hands exactly one request to \<open>fetch\<close>, and
  that request carries the serialised body exactly when a body is supplied and its
  HTTP method is POST, PUT or PATCH; a request with any other HTTP method, DELETE
  included, carries no body. This holds for \<open>apiFetch\<close> and for \<open>webhookFetch\<close>.
\<close>

theorem rest_client_body:
  "(\<exists>opts. sent (snd (apiFetch url key meth b w)) = sent w @ [(url, opts)] \<and>
      body opts =
        (if b \<noteq> None \<and> meth \<in> {Some ''POST'', Some ''PUT'', Some ''PATCH''} then b else None))
   \<and> (\<exists>opts. sent (snd (webhookFetch url key meth b w)) = sent w @ [(url, opts)] \<and>
      body opts =
        (if b \<noteq> None \<and> meth \<in> {Some ''POST'', Some ''PUT'', Some ''PATCH''} then b else None))"
  by (simp add: apiFetch_sent webhookFetch_sent)

text \<open>
  Claim C5 as stated fails: a DELETE with a body supplied is sent without the body.
\<close>

theorem rest_client_body_counterexample:
  "sent (snd (apiFetch ''https://api.jsondb.cloud/v1/users/u1'' ''k'' (Some ''DELETE'')
                (Some (JObject [(''reason'', JString ''gone'')]))
                (world_of sample_env (Rejected ''offline'') (Inr None))))
   = [(''https://api.jsondb.cloud/v1/users/u1'',
       \<lparr>http_method = Some ''DELETE'',
        headers = [(''Authorization'', ''Bearer k''), (''Content-Type'', ''application/json'')],
        body = None\<rparr>)]"
  by (simp add: apiFetch_def fetch_def world_of_def Let_def)
text \<open>
  Claim C6, as amended. The SDK client is built once, by \<open>main\<close>, from the API key,
  the project and the base URL that the environment holds at start; the handlers that
  call it (the document tools, search_documents, the schema tools) read no environment
  variable and send no request of their own, so a change of the environment after the
  start does not reach them. The handlers that call the REST API resolve the triple
  from the process environment at every invocation (\<open>resolveEnv\<close>, or the same
  expressions inline): the one request of an invocation goes to a URL under the base
  URL and project of the environment at that invocation and bears its API key, where
  the key is the value of \<open>JSONDB_API_KEY\<close>, the project the value of
  \<open>JSONDB_PROJECT\<close> and the base URL the value of \<open>JSONDB_BASE_URL\<close> when these
  are set (a final slash removed). For two invocations of the same handler, the result
  and the outbound request are the same whenever \<open>JSONDB_API_KEY\<close>,
  \<open>JSONDB_PROJECT\<close>, \<open>JSONDB_NAMESPACE\<close> and \<open>JSONDB_BASE_URL\<close> have the same
  values at the two invocations.
\<close>

theorem request_follows_environment:
  "(\<not> sdk_backed c \<and> renderable c \<longrightarrow>
      (\<exists>rest opts.
          sent (snd (handle c w)) =
            sent w @ [(baseUrl (resolveEnv (env w)) @ ''/'' @ project (resolveEnv (env w)) @ rest,
                       opts)]
          \<and> map_of (headers opts) ''Authorization''
              = Some (''Bearer '' @ apiKey (resolveEnv (env w)))))
   \<and> (e ''JSONDB_API_KEY'' = Some k \<longrightarrow> apiKey (resolveEnv e) = k)
   \<and> (e ''JSONDB_PROJECT'' = Some p \<and> p \<noteq> [] \<longrightarrow> project (resolveEnv e) = p)
   \<and> (e ''JSONDB_BASE_URL'' = Some b \<and> b \<noteq> [] \<and> last b \<noteq> CHR ''/''
        \<longrightarrow> baseUrl (resolveEnv e) = b)
   \<and> (e ''JSONDB_BASE_URL'' = Some (b @ ''/'') \<longrightarrow> baseUrl (resolveEnv e) = b)
   \<and> (sdk_backed c \<longrightarrow>
        sent (snd (handle c w)) = sent w
        \<and> fst (handle c (w\<lparr>env := e\<rparr>)) = fst (handle c w))
   \<and> (e ''JSONDB_API_KEY'' = Some k \<and> k \<noteq> [] \<longrightarrow>
        filter builds_client (main e) =
          [New_JsonDB \<lparr>apiKey = k,
                       project = str_or (e ''JSONDB_PROJECT'') (str_or (e ''JSONDB_NAMESPACE'') ''v1''),
                       baseUrl = str_or (e ''JSONDB_BASE_URL'') ''https://api.jsondb.cloud''\<rparr>])
   \<and> ((\<forall>x \<in> set [''JSONDB_API_KEY'', ''JSONDB_PROJECT'', ''JSONDB_NAMESPACE'', ''JSONDB_BASE_URL'']. env w1 x = env w2 x)
        \<and> network w1 = network w2 \<and> db w1 = db w2 \<longrightarrow>
        fst (handle c w1) = fst (handle c w2)
        \<and> drop (length (sent w1)) (sent (snd (handle c w1)))
          = drop (length (sent w2)) (sent (snd (handle c w2))))"
proof -
  have request: "\<exists>rest opts.
          sent (snd (handle c w)) =
            sent w @ [(baseUrl (resolveEnv (env w)) @ ''/'' @ project (resolveEnv (env w)) @ rest,
                       opts)]
          \<and> map_of (headers opts) ''Authorization''
              = Some (''Bearer '' @ apiKey (resolveEnv (env w)))"
    if "\<not> sdk_backed c" and "renderable c"
    using try_rest_request [OF that, of w] by (simp add: snd_handle)
  have key: "apiKey (resolveEnv e) = k" if "e ''JSONDB_API_KEY'' = Some k"
    using that by (simp add: resolveEnv_def str_or_def)
  have proj: "project (resolveEnv e) = p" if "e ''JSONDB_PROJECT'' = Some p" and "p \<noteq> []"
    using that by (simp add: resolveEnv_def str_or_def)
  have base: "baseUrl (resolveEnv e) = b"
    if "e ''JSONDB_BASE_URL'' = Some b" and "b \<noteq> []" and "last b \<noteq> CHR ''/''"
    using that by (simp add: resolveEnv_def str_or_def strip_trailing_slash_def)
  have slash: "baseUrl (resolveEnv e) = b" if "e ''JSONDB_BASE_URL'' = Some (b @ ''/'')"
    using that by (simp add: resolveEnv_def str_or_def strip_trailing_slash_def)
  have client: "sent (snd (handle c w)) = sent w
        \<and> fst (handle c (w\<lparr>env := e\<rparr>)) = fst (handle c w)"
    if "sdk_backed c"
    using that by (simp add: fst_handle snd_handle try_sdk_sends_nothing try_sdk_env)
  have start: "filter builds_client (main e) =
          [New_JsonDB \<lparr>apiKey = k,
                       project = str_or (e ''JSONDB_PROJECT'') (str_or (e ''JSONDB_NAMESPACE'') ''v1''),
                       baseUrl = str_or (e ''JSONDB_BASE_URL'') ''https://api.jsondb.cloud''\<rparr>]"
    if "e ''JSONDB_API_KEY'' = Some k" and "k \<noteq> []"
    using that by (simp add: main_def str_or_def builds_client_def)
  have same: "fst (handle c w1) = fst (handle c w2)
        \<and> drop (length (sent w1)) (sent (snd (handle c w1)))
          = drop (length (sent w2)) (sent (snd (handle c w2)))"
    if vars: "\<forall>x \<in> set [''JSONDB_API_KEY'', ''JSONDB_PROJECT'', ''JSONDB_NAMESPACE'', ''JSONDB_BASE_URL'']. env w1 x = env w2 x"
      and net: "network w1 = network w2" and client: "db w1 = db w2"
  proof -
    have r: "resolveEnv (env w1) = resolveEnv (env w2)"
      using vars by (rule resolveEnv_cong)
    have "fst (tool_try c w1) = fst (tool_try c w2)"
      using r net client by (rule tool_try_fst_env)
    moreover have "drop (length (sent w1)) (sent (snd (tool_try c w1)))
        = drop (length (sent w2)) (sent (snd (tool_try c w2)))"
      using r by (rule tool_try_new_requests)
    ultimately show ?thesis
      by (simp add: fst_handle snd_handle)
  qed
  from request key proj base slash client start same show ?thesis
    by blast
qed

text \<open>
  The parts of the claim at concrete calls: list_webhooks sends its request to the base
  URL and project of the environment, with its key; get_document sends nothing and
  answers the same under another environment; \<open>main\<close> builds the client once; and a
  variable that is none of the four changes nothing.
\<close>

theorem request_follows_environment_witness:
  "sent (snd (handle (List_webhooks ''users'') (world_of [''JSONDB_API_KEY'' \<mapsto> ''jdb_sk_test_xyz'', ''JSONDB_PROJECT'' \<mapsto> ''other'', ''JSONDB_BASE_URL'' \<mapsto> ''https://example.org''] (Rejected ''offline'') (Inr None))))
     = [(''https://example.org/other/users/_webhooks'',
         \<lparr>http_method = Some ''GET'',
          headers = [(''Authorization'', ''Bearer jdb_sk_test_xyz''),
                     (''Content-Type'', ''application/json'')],
          body = None\<rparr>)]
   \<and> (\<exists>rest opts.
        sent (snd (handle (List_webhooks ''users'') (world_of [''JSONDB_API_KEY'' \<mapsto> ''jdb_sk_test_xyz'', ''JSONDB_PROJECT'' \<mapsto> ''other'', ''JSONDB_BASE_URL'' \<mapsto> ''https://example.org''] (Rejected ''offline'') (Inr None))))
          = sent (world_of [''JSONDB_API_KEY'' \<mapsto> ''jdb_sk_test_xyz'', ''JSONDB_PROJECT'' \<mapsto> ''other'', ''JSONDB_BASE_URL'' \<mapsto> ''https://example.org''] (Rejected ''offline'') (Inr None)) @ [(''https://example.org'' @ ''/'' @ ''other'' @ rest, opts)]
        \<and> map_of (headers opts) ''Authorization'' = Some (''Bearer '' @ ''jdb_sk_test_xyz''))
   \<and> sdk_backed (Get_document ''users'' ''abc'')
   \<and> sent (snd (handle (Get_document ''users'' ''abc'') (world_of sample_env (Rejected ''offline'') (Inr (Some (JObject [(''_id'', JString ''abc'')])))))) = []
   \<and> fst (handle (Get_document ''users'' ''abc'') ((world_of sample_env (Rejected ''offline'') (Inr (Some (JObject [(''_id'', JString ''abc'')]))))\<lparr>env := Map.empty\<rparr>))
     = fst (handle (Get_document ''users'' ''abc'') (world_of sample_env (Rejected ''offline'') (Inr (Some (JObject [(''_id'', JString ''abc'')])))))
   \<and> filter builds_client (main sample_env)
     = [New_JsonDB \<lparr>apiKey = ''jdb_sk_test_abc'', project = ''test-project'',
                    baseUrl = ''https://api.jsondb.cloud''\<rparr>]
   \<and> env (world_of sample_env (Rejected ''offline'') (Inr None)) ''JSONDB_API_KEY'' = env (world_of (sample_env(''HOME'' \<mapsto> ''/root'')) (Rejected ''offline'') (Inr None)) ''JSONDB_API_KEY''
   \<and> fst (handle (List_webhooks ''users'') (world_of sample_env (Rejected ''offline'') (Inr None)))
     = fst (handle (List_webhooks ''users'') (world_of (sample_env(''HOME'' \<mapsto> ''/root'')) (Rejected ''offline'') (Inr None)))
   \<and> drop (length (sent (world_of sample_env (Rejected ''offline'') (Inr None)))) (sent (snd (handle (List_webhooks ''users'') (world_of sample_env (Rejected ''offline'') (Inr None)))))
     = drop (length (sent (world_of (sample_env(''HOME'' \<mapsto> ''/root'')) (Rejected ''offline'') (Inr None)))) (sent (snd (handle (List_webhooks ''users'') (world_of (sample_env(''HOME'' \<mapsto> ''/root'')) (Rejected ''offline'') (Inr None)))))"
proof -
  let ?e3 = "[''JSONDB_API_KEY'' \<mapsto> ''jdb_sk_test_xyz'', ''JSONDB_PROJECT'' \<mapsto> ''other'', ''JSONDB_BASE_URL'' \<mapsto> ''https://example.org'']"
  have sent3: "sent (snd (handle (List_webhooks ''users'') (world_of [''JSONDB_API_KEY'' \<mapsto> ''jdb_sk_test_xyz'', ''JSONDB_PROJECT'' \<mapsto> ''other'', ''JSONDB_BASE_URL'' \<mapsto> ''https://example.org''] (Rejected ''offline'') (Inr None))))
     = [(''https://example.org/other/users/_webhooks'',
         \<lparr>http_method = Some ''GET'',
          headers = [(''Authorization'', ''Bearer jdb_sk_test_xyz''),
                     (''Content-Type'', ''application/json'')],
          body = None\<rparr>)]"
    by (simp add: snd_handle list_webhooks_try_def snd_await webhookFetch_sent world_of_def
        resolveEnv_def str_or_def strip_trailing_slash_def Let_def)
  have a1: "\<not> sdk_backed (List_webhooks ''users'') \<and> renderable (List_webhooks ''users'')"
    by (simp add: renderable_def)
  have k3: "?e3 ''JSONDB_API_KEY'' = Some ''jdb_sk_test_xyz''"
    and p3: "?e3 ''JSONDB_PROJECT'' = Some ''other'' \<and> ''other'' \<noteq> []"
    and b3: "?e3 ''JSONDB_BASE_URL'' = Some ''https://example.org'' \<and> ''https://example.org'' \<noteq> []
       \<and> last ''https://example.org'' \<noteq> CHR ''/''"
    by simp_all
  note t3 = request_follows_environment [of "List_webhooks ''users''" "(world_of [''JSONDB_API_KEY'' \<mapsto> ''jdb_sk_test_xyz'', ''JSONDB_PROJECT'' \<mapsto> ''other'', ''JSONDB_BASE_URL'' \<mapsto> ''https://example.org''] (Rejected ''offline'') (Inr None))" ?e3]
  note r1 = t3 [THEN conjunct1, rule_format, OF a1]
  note r2 = t3 [of "''jdb_sk_test_xyz''", THEN conjunct2, THEN conjunct1, rule_format, OF k3]
  note r3 = t3 [of _ "''other''", THEN conjunct2, THEN conjunct2, THEN conjunct1, rule_format, OF p3]
  note r4 = t3 [of _ _ "''https://example.org''", THEN conjunct2, THEN conjunct2, THEN conjunct2,
      THEN conjunct1, rule_format, OF b3]
  have env3: "env (world_of [''JSONDB_API_KEY'' \<mapsto> ''jdb_sk_test_xyz'', ''JSONDB_PROJECT'' \<mapsto> ''other'', ''JSONDB_BASE_URL'' \<mapsto> ''https://example.org''] (Rejected ''offline'') (Inr None)) = ?e3"
    by (simp add: world_of_def)
  from r1 r2 r3 r4 have request3: "\<exists>rest opts.
        sent (snd (handle (List_webhooks ''users'') (world_of [''JSONDB_API_KEY'' \<mapsto> ''jdb_sk_test_xyz'', ''JSONDB_PROJECT'' \<mapsto> ''other'', ''JSONDB_BASE_URL'' \<mapsto> ''https://example.org''] (Rejected ''offline'') (Inr None))))
          = sent (world_of [''JSONDB_API_KEY'' \<mapsto> ''jdb_sk_test_xyz'', ''JSONDB_PROJECT'' \<mapsto> ''other'', ''JSONDB_BASE_URL'' \<mapsto> ''https://example.org''] (Rejected ''offline'') (Inr None)) @ [(''https://example.org'' @ ''/'' @ ''other'' @ rest, opts)]
        \<and> map_of (headers opts) ''Authorization'' = Some (''Bearer '' @ ''jdb_sk_test_xyz'')"
    by (simp only: env3)
  have a5: "sdk_backed (Get_document ''users'' ''abc'')"
    by simp
  note r5 = request_follows_environment [of "Get_document ''users'' ''abc''" "(world_of sample_env (Rejected ''offline'') (Inr (Some (JObject [(''_id'', JString ''abc'')]))))" Map.empty,
      THEN conjunct2, THEN conjunct2, THEN conjunct2, THEN conjunct2, THEN conjunct2,
      THEN conjunct1, rule_format, OF a5]
  have a6: "sample_env ''JSONDB_API_KEY'' = Some ''jdb_sk_test_abc'' \<and> ''jdb_sk_test_abc'' \<noteq> []"
    by (simp add: sample_env_def)
  note r6 = request_follows_environment [of _ _ sample_env "''jdb_sk_test_abc''",
      THEN conjunct2, THEN conjunct2, THEN conjunct2, THEN conjunct2, THEN conjunct2,
      THEN conjunct2, THEN conjunct1, rule_format, OF a6]
  have a7: "(\<forall>x \<in> set [''JSONDB_API_KEY'', ''JSONDB_PROJECT'', ''JSONDB_NAMESPACE'', ''JSONDB_BASE_URL'']. env (world_of sample_env (Rejected ''offline'') (Inr None)) x = env (world_of (sample_env(''HOME'' \<mapsto> ''/root'')) (Rejected ''offline'') (Inr None)) x)
      \<and> network (world_of sample_env (Rejected ''offline'') (Inr None)) = network (world_of (sample_env(''HOME'' \<mapsto> ''/root'')) (Rejected ''offline'') (Inr None)) \<and> db (world_of sample_env (Rejected ''offline'') (Inr None)) = db (world_of (sample_env(''HOME'' \<mapsto> ''/root'')) (Rejected ''offline'') (Inr None))"
    by (simp add: world_of_def)
  note r7 = request_follows_environment [of "List_webhooks ''users''" _ _ _ _ _ "(world_of sample_env (Rejected ''offline'') (Inr None))" "(world_of (sample_env(''HOME'' \<mapsto> ''/root'')) (Rejected ''offline'') (Inr None))",
      THEN conjunct2, THEN conjunct2, THEN conjunct2, THEN conjunct2, THEN conjunct2,
      THEN conjunct2, THEN conjunct2, rule_format, OF a7]
  have e7: "env (world_of sample_env (Rejected ''offline'') (Inr None)) ''JSONDB_API_KEY'' = env (world_of (sample_env(''HOME'' \<mapsto> ''/root'')) (Rejected ''offline'') (Inr None)) ''JSONDB_API_KEY''"
    by (simp add: world_of_def)
  have s5: "sent (world_of sample_env (Rejected ''offline'') (Inr (Some (JObject [(''_id'', JString ''abc'')])))) = []"
    by (simp add: world_of_def)
  have m6: "str_or (sample_env ''JSONDB_PROJECT'') (str_or (sample_env ''JSONDB_NAMESPACE'') ''v1'')
        = ''test-project''"
    "str_or (sample_env ''JSONDB_BASE_URL'') ''https://api.jsondb.cloud'' = ''https://api.jsondb.cloud''"
    by (simp_all add: sample_env_def str_or_def)
  from sent3 request3 a5 r5 r6 r7 e7 show ?thesis
    by (simp only: s5 m6)
qed

text \<open>
  Claim C6 as stated fails: list_webhooks is invoked twice in one process, and the
  environment is changed between the two invocations; the second request goes to the
  new base URL and project with the new key.
\<close>

theorem environment_change_counterexample:
  "sent (snd (handle (List_webhooks ''users'')
                ((snd (handle (List_webhooks ''users'')
                         (world_of sample_env (Rejected ''offline'') (Inr None))))
                   \<lparr>env := [''JSONDB_API_KEY'' \<mapsto> ''jdb_sk_test_xyz'',
                            ''JSONDB_PROJECT'' \<mapsto> ''other'',
                            ''JSONDB_BASE_URL'' \<mapsto> ''https://example.org/'']\<rparr>)))
   = [(''https://api.jsondb.cloud/test-project/users/_webhooks'',
       \<lparr>http_method = Some ''GET'',
        headers = [(''Authorization'', ''Bearer jdb_sk_test_abc''),
                   (''Content-Type'', ''application/json'')],
        body = None\<rparr>),
      (''https://example.org/other/users/_webhooks'',
       \<lparr>http_method = Some ''GET'',
        headers = [(''Authorization'', ''Bearer jdb_sk_test_xyz''),
                   (''Content-Type'', ''application/json'')],
        body = None\<rparr>)]"
  by (simp add: snd_handle list_webhooks_try_def snd_await webhookFetch_sent world_of_def
      resolveEnv_def sample_env_def str_or_def strip_trailing_slash_def Let_def)

text \<open>
  Claim C7, as amended. store_with_embedding sends the caller's data with the marker
  field \<open>$embed\<close> set to the name of the field to embed, and leaves every other field
  as the caller gave it. When a non-empty \<open>id\<close> is supplied it issues a PUT to the path
  of the collection followed by that id; when no \<open>id\<close> is supplied, or the \<open>id\<close> is the
  empty string, it issues a POST to the path of the collection.
\<close>

theorem store_with_embedding_request:
  "(\<forall>i. doc_id = Some i \<and> i \<noteq> [] \<longrightarrow>
       sent (snd (handle (Store_with_embedding collection data embed_field doc_id) w)) =
         sent w @
         [(baseUrl (resolveEnv (env w)) @ ''/'' @ project (resolveEnv (env w)) @ ''/'' @ collection
             @ ''/'' @ i,
           \<lparr>http_method = Some ''PUT'',
            headers = [(''Authorization'', ''Bearer '' @ apiKey (resolveEnv (env w))),
                       (''Content-Type'', ''application/json'')],
            body = Some (JObject (obj_set data ''$embed'' (JString embed_field)))\<rparr>)])
   \<and> (doc_id = None \<or> doc_id = Some [] \<longrightarrow>
       sent (snd (handle (Store_with_embedding collection data embed_field doc_id) w)) =
         sent w @
         [(baseUrl (resolveEnv (env w)) @ ''/'' @ project (resolveEnv (env w)) @ ''/'' @ collection,
           \<lparr>http_method = Some ''POST'',
            headers = [(''Authorization'', ''Bearer '' @ apiKey (resolveEnv (env w))),
                       (''Content-Type'', ''application/json'')],
            body = Some (JObject (obj_set data ''$embed'' (JString embed_field)))\<rparr>)])
   \<and> map_of (obj_set data ''$embed'' (JString embed_field)) ''$embed'' = Some (JString embed_field)
   \<and> (\<forall>k. k \<noteq> ''$embed'' \<longrightarrow>
         map_of (obj_set data ''$embed'' (JString embed_field)) k = map_of data k)"
  by (auto simp: snd_handle store_with_embedding_try_def snd_await apiFetch_sent Let_def
      opt_string_def template_opt_def map_of_obj_set)

theorem store_with_embedding_request_witness:
  "sent (snd (handle (Store_with_embedding ''articles'' [(''title'', JString ''Test'')] ''title''
                        (Some ''custom-id''))
                (world_of sample_env (Rejected ''offline'') (Inr None))))
   = [(''https://api.jsondb.cloud/test-project/articles/custom-id'',
       \<lparr>http_method = Some ''PUT'',
        headers = [(''Authorization'', ''Bearer jdb_sk_test_abc''),
                   (''Content-Type'', ''application/json'')],
        body = Some (JObject [(''title'', JString ''Test''), (''$embed'', JString ''title'')])\<rparr>)]
   \<and> sent (snd (handle (Store_with_embedding ''articles'' [(''title'', JString ''Test'')] ''title'' None)
                (world_of sample_env (Rejected ''offline'') (Inr None))))
   = [(''https://api.jsondb.cloud/test-project/articles'',
       \<lparr>http_method = Some ''POST'',
        headers = [(''Authorization'', ''Bearer jdb_sk_test_abc''),
                   (''Content-Type'', ''application/json'')],
        body = Some (JObject [(''title'', JString ''Test''), (''$embed'', JString ''title'')])\<rparr>)]"
  using store_with_embedding_request
          [of "Some ''custom-id''" "''articles''" "[(''title'', JString ''Test'')]" "''title''"
              "world_of sample_env (Rejected ''offline'') (Inr None)"]
        store_with_embedding_request
          [of None "''articles''" "[(''title'', JString ''Test'')]" "''title''"
              "world_of sample_env (Rejected ''offline'') (Inr None)"]
  by (simp add: world_of_def resolveEnv_def sample_env_def str_or_def strip_trailing_slash_def)

text \<open>
  Claim C7 as stated fails: with the empty string supplied as \<open>id\<close> the handler issues
  a POST to the path of the collection, not a PUT.
\<close>

theorem store_with_embedding_counterexample:
  "sent (snd (handle (Store_with_embedding ''articles'' [(''title'', JString ''Test'')] ''title''
                        (Some []))
                (world_of sample_env (Rejected ''offline'') (Inr None))))
   = [(''https://api.jsondb.cloud/test-project/articles'',
       \<lparr>http_method = Some ''POST'',
        headers = [(''Authorization'', ''Bearer jdb_sk_test_abc''),
                   (''Content-Type'', ''application/json'')],
        body = Some (JObject [(''title'', JString ''Test''), (''$embed'', JString ''title'')])\<rparr>)]"
  by (simp add: snd_handle store_with_embedding_try_def snd_await apiFetch_sent world_of_def
      resolveEnv_def sample_env_def str_or_def strip_trailing_slash_def Let_def opt_string_def)
text \<open>
  Claim C8, as amended. For every upstream payload other than \<open>null\<close> that
  export_collection receives with a 2xx status: an array is used directly as the
  documents; otherwise the \<open>data\<close> property of the payload is used when it is present
  and not \<open>null\<close>, whatever its type; otherwise the documents are the empty list. The
  result is the success of \<open>{collection, count, documents}\<close>, in which \<open>count\<close> is the
  length of the documents when they are a list; for a \<open>data\<close> property that is not a
  list, \<open>count\<close> is its length when it is a string, its \<open>length\<close> property when it
  is an object, and is left out otherwise. The request is sent only when the query can
  be built from the filter: when a filter value holds an entry that \<open>String\<close> cannot
  convert, the handler sends nothing and returns the error EXPORT_FAILED.
\<close>

theorem export_collection_result:
  assumes "\<forall>url opts. network w url opts = Resolved r"
    and "ok r" and "json r = Inr v" and "v \<noteq> JNull"
  shows "(renderable_filter filter_arg \<longrightarrow>
          (\<exists>docs count.
             fst (handle (Export_collection collection filter_arg) w) =
               Inr (success (Some (mk_obj [(''collection'', Some (JString collection)),
                                           (''count'', count),
                                           (''documents'', Some docs)])))
           \<and> (\<forall>xs. v = JArray xs \<longrightarrow> docs = v)
           \<and> (\<forall>kvs d. v = JObject kvs \<and> map_of kvs ''data'' = Some d \<and> d \<noteq> JNull \<longrightarrow> docs = d)
           \<and> ((\<forall>xs. v \<noteq> JArray xs)
                \<and> (\<forall>kvs d. v = JObject kvs \<and> map_of kvs ''data'' = Some d \<longrightarrow> d = JNull)
                \<longrightarrow> docs = JArray [])
           \<and> docs \<noteq> JNull
           \<and> (\<forall>xs. docs = JArray xs \<longrightarrow> count = Some (JNumber (int (length xs))))
           \<and> (\<forall>s. docs = JString s \<longrightarrow> count = Some (JNumber (int (length s))))
           \<and> (\<forall>kvs. docs = JObject kvs \<longrightarrow> count = map_of kvs ''length'')
           \<and> (\<forall>b. docs = JBool b \<longrightarrow> count = None)
           \<and> (\<forall>n. docs = JNumber n \<longrightarrow> count = None)))
       \<and> (\<not> renderable_filter filter_arg \<longrightarrow>
            fst (handle (Export_collection collection filter_arg) w) =
              Inr (error ''EXPORT_FAILED'' (JString ''Cannot convert object to primitive value'')
                     ''Verify the collection name is correct. Use list_collections to see available collections.'')
            \<and> sent (snd (handle (Export_collection collection filter_arg) w)) = sent w)"
    (is "(_ \<longrightarrow> (\<exists>docs count. ?result docs count)) \<and> _")
proof -
  define docs where "docs =
     (case v of
        JArray xs \<Rightarrow> v
      | JObject kvs \<Rightarrow>
          (case map_of kvs ''data'' of
             Some d \<Rightarrow> if d = JNull then JArray [] else d
           | None \<Rightarrow> JArray [])
      | _ \<Rightarrow> JArray [])"
  define count where "count = (case get_prop (Some docs) ''length'' of Inr c \<Rightarrow> c | Inl e \<Rightarrow> None)"
  have normal: "export_normalize collection (Some v) =
      Inr (success (Some (mk_obj [(''collection'', Some (JString collection)),
                                  (''count'', count),
                                  (''documents'', Some docs)])))"
  proof (cases v)
    case (JObject kvs)
    show ?thesis
    proof (cases "map_of kvs ''data''")
      case None
      with JObject show ?thesis
        by (simp add: export_normalize_def is_array_def e_bind_def js_nullish_def
            return_success_def count_def docs_def)
    next
      case (Some d)
      with JObject show ?thesis
        by (cases d)
           (simp_all add: export_normalize_def is_array_def e_bind_def js_nullish_def
              return_success_def count_def docs_def)
    qed
  qed (use assms(4) in
        \<open>simp_all add: export_normalize_def is_array_def e_bind_def js_nullish_def
           return_success_def count_def docs_def\<close>)
  have docs_shape: "(\<forall>xs. v = JArray xs \<longrightarrow> docs = v)
         \<and> (\<forall>kvs d. v = JObject kvs \<and> map_of kvs ''data'' = Some d \<and> d \<noteq> JNull \<longrightarrow> docs = d)
         \<and> ((\<forall>xs. v \<noteq> JArray xs)
              \<and> (\<forall>kvs d. v = JObject kvs \<and> map_of kvs ''data'' = Some d \<longrightarrow> d = JNull)
              \<longrightarrow> docs = JArray [])
         \<and> docs \<noteq> JNull"
    unfolding docs_def by (cases v) (auto split: option.splits)
  have count_shape: "(\<forall>xs. docs = JArray xs \<longrightarrow> count = Some (JNumber (int (length xs))))
       \<and> (\<forall>s. docs = JString s \<longrightarrow> count = Some (JNumber (int (length s))))
       \<and> (\<forall>kvs. docs = JObject kvs \<longrightarrow> count = map_of kvs ''length'')
       \<and> (\<forall>b. docs = JBool b \<longrightarrow> count = None)
       \<and> (\<forall>n. docs = JNumber n \<longrightarrow> count = None)"
    unfolding count_def by (rule documents_length)
  show ?thesis
  proof (intro conjI impI)
    assume "renderable_filter filter_arg"
    then obtain ps where "export_params filter_arg = Inr ps"
      using export_params_renderable by blast
    then have "fst (tool_try (Export_collection collection filter_arg) w)
        = export_normalize collection (Some v)"
      using assms(1,2,3) by (simp add: export_collection_try_fst res_json_def e_bind_def)
    with normal have "fst (handle (Export_collection collection filter_arg) w) =
        Inr (success (Some (mk_obj [(''collection'', Some (JString collection)),
                                    (''count'', count),
                                    (''documents'', Some docs)])))"
      by (simp add: fst_handle)
    with docs_shape count_shape have "?result docs count"
      by (intro conjI) (elim conjE, assumption)+
    then show "\<exists>docs count. ?result docs count"
      by (intro exI)
  next
    assume "\<not> renderable_filter filter_arg"
    then have query: "export_params filter_arg = Inl cannot_convert"
      by (rule export_params_not_renderable)
    then show "fst (handle (Export_collection collection filter_arg) w) =
          Inr (error ''EXPORT_FAILED'' (JString ''Cannot convert object to primitive value'')
                 ''Verify the collection name is correct. Use list_collections to see available collections.'')"
      by (simp add: fst_handle export_collection_try_fst export_collection_catch_def
          cannot_convert_def js_error_def e_bind_def return_error_or_def js_or_def)
    from query show "sent (snd (handle (Export_collection collection filter_arg) w)) = sent w"
      by (simp add: snd_handle export_collection_try_sent)
  qed
qed

text \<open>
  A payload with a \<open>data\<close> property that holds two documents, under a filter that can
  be put in the query and under one that cannot.
\<close>

theorem export_collection_result_witness:
  "(\<forall>url opts. network (world_of sample_env (Resolved \<lparr>status = 200, statusText = ''OK'', json = Inr (JObject [(''data'', JArray [JString ''a'', JString ''b''])])\<rparr>) (Inr None)) url opts = Resolved \<lparr>status = 200, statusText = ''OK'', json = Inr (JObject [(''data'', JArray [JString ''a'', JString ''b''])])\<rparr>)
   \<and> ok \<lparr>status = 200, statusText = ''OK'', json = Inr (JObject [(''data'', JArray [JString ''a'', JString ''b''])])\<rparr>
   \<and> renderable_filter (Some [(''age'', JObject [(''$gt'', JNumber 21)])])
   \<and> fst (handle (Export_collection ''users'' (Some [(''age'', JObject [(''$gt'', JNumber 21)])])) (world_of sample_env (Resolved \<lparr>status = 200, statusText = ''OK'', json = Inr (JObject [(''data'', JArray [JString ''a'', JString ''b''])])\<rparr>) (Inr None)))
     = Inr (success (Some (JObject [(''collection'', JString ''users''),
                                    (''count'', JNumber 2),
                                    (''documents'', JArray [JString ''a'', JString ''b''])])))
   \<and> \<not> renderable_filter (Some [(''age'', JObject [(''$gt'', JObject [(''toString'', JNumber 1)])])])
   \<and> fst (handle (Export_collection ''users'' (Some [(''age'', JObject [(''$gt'', JObject [(''toString'', JNumber 1)])])])) (world_of sample_env (Resolved \<lparr>status = 200, statusText = ''OK'', json = Inr (JObject [(''data'', JArray [JString ''a'', JString ''b''])])\<rparr>) (Inr None)))
     = Inr (error ''EXPORT_FAILED'' (JString ''Cannot convert object to primitive value'')
              ''Verify the collection name is correct. Use list_collections to see available collections.'')
   \<and> sent (snd (handle (Export_collection ''users'' (Some [(''age'', JObject [(''$gt'', JObject [(''toString'', JNumber 1)])])])) (world_of sample_env (Resolved \<lparr>status = 200, statusText = ''OK'', json = Inr (JObject [(''data'', JArray [JString ''a'', JString ''b''])])\<rparr>) (Inr None)))) = []"
proof -
  let ?v = "JObject [(''data'', JArray [JString ''a'', JString ''b''])]"
  let ?r = "\<lparr>status = 200, statusText = ''OK'', json = Inr (JObject [(''data'', JArray [JString ''a'', JString ''b''])])\<rparr>"
  let ?w = "(world_of sample_env (Resolved \<lparr>status = 200, statusText = ''OK'', json = Inr (JObject [(''data'', JArray [JString ''a'', JString ''b''])])\<rparr>) (Inr None))"
  have h1: "\<forall>url opts. network ?w url opts = Resolved ?r"
    by (simp add: world_of_def)
  have h2: "ok ?r" by (simp add: ok_def)
  have h3: "json ?r = Inr ?v" by simp
  have h4: "?v \<noteq> JNull" by simp
  have good: "renderable_filter (Some [(''age'', JObject [(''$gt'', JNumber 21)])])"
    by (simp add: renderable_filter_def entries_def)
  have bad: "\<not> renderable_filter (Some [(''age'', JObject [(''$gt'', JObject [(''toString'', JNumber 1)])])])"
    by (simp add: renderable_filter_def entries_def)
  from export_collection_result [OF h1 h2 h3 h4, of "Some [(''age'', JObject [(''$gt'', JNumber 21)])]" "''users''",
      THEN conjunct1, rule_format, OF good]
  have first: "fst (handle (Export_collection ''users'' (Some [(''age'', JObject [(''$gt'', JNumber 21)])])) ?w)
     = Inr (success (Some (JObject [(''collection'', JString ''users''),
                                    (''count'', JNumber 2),
                                    (''documents'', JArray [JString ''a'', JString ''b''])])))"
  proof (elim exE conjE)
    fix docs count
    assume res: "fst (handle (Export_collection ''users'' (Some [(''age'', JObject [(''$gt'', JNumber 21)])])) ?w) =
             Inr (success (Some (mk_obj [(''collection'', Some (JString ''users'')),
                                         (''count'', count),
                                         (''documents'', Some docs)])))"
      and d: "\<forall>kvs d. ?v = JObject kvs \<and> map_of kvs ''data'' = Some d \<and> d \<noteq> JNull \<longrightarrow> docs = d"
      and c: "\<forall>xs. docs = JArray xs \<longrightarrow> count = Some (JNumber (int (length xs)))"
    from d have docs: "docs = JArray [JString ''a'', JString ''b'']" by simp
    with c have "count = Some (JNumber 2)" by simp
    with res docs show ?thesis
      by (simp add: mk_obj_def List.map_filter_def)
  qed
  note second = export_collection_result [OF h1 h2 h3 h4, of "Some [(''age'', JObject [(''$gt'', JObject [(''toString'', JNumber 1)])])]" "''users''",
      THEN conjunct2, rule_format, OF bad]
  have empty: "sent ?w = []"
    by (simp add: world_of_def)
  note failed = second [THEN conjunct1]
  note nothing_sent = second [THEN conjunct2, unfolded empty]
  from h1 h2 good first bad failed nothing_sent show ?thesis
    by (intro conjI)
qed

text \<open>
  Claim C8 as stated fails. For the payload \<open>null\<close> the handler reads \<open>data.data\<close> of
  \<open>null\<close> and returns the error EXPORT_FAILED instead of an empty export; for a
  payload whose \<open>data\<close> property is an object, the result has no \<open>count\<close>.
\<close>

theorem export_collection_counterexample:
  "fst (handle (Export_collection ''users'' None)
         (world_of sample_env
            (Resolved \<lparr>status = 200, statusText = ''OK'', json = Inr JNull\<rparr>) (Inr None)))
     = Inr (error ''EXPORT_FAILED''
              (JString (''Cannot read properties of null (reading '' @ quoted ''data'' @ '')''))
              ''Verify the collection name is correct. Use list_collections to see available collections.'')
   \<and> fst (handle (Export_collection ''users'' None)
         (world_of sample_env
            (Resolved \<lparr>status = 200, statusText = ''OK'',
                       json = Inr (JObject [(''data'', JObject [(''total'', JNumber 3)])])\<rparr>)
            (Inr None)))
     = Inr (success (Some (JObject [(''collection'', JString ''users''),
                                    (''documents'', JObject [(''total'', JNumber 3)])])))"
  by (simp add: fst_handle export_collection_try_fst export_params_def
      export_collection_catch_def Let_def world_of_def ok_def res_json_def export_normalize_def is_array_def
      e_bind_def js_nullish_def return_success_def return_error_or_def js_error_def js_or_def
      mk_obj_def List.map_filter_def)

text \<open>
  Claim C9. When \<open>JSONDB_API_KEY\<close> is absent at start, \<open>main\<close> prints the message
  that tells how to set it and exits with status 1; no protocol server, session or
  listener is created before the exit.
\<close>

theorem missing_api_key_exits:
  "e ''JSONDB_API_KEY'' = None \<Longrightarrow>
     main e = [Console_error missing_key_message, Exit 1]
     \<and> (\<forall>ev \<in> set (main e). \<not> creates_listener_or_session ev)"
  by (simp add: main_def str_or_def creates_listener_or_session_def)

theorem missing_api_key_exits_witness:
  "(Map.empty :: environment) ''JSONDB_API_KEY'' = None
   \<and> main Map.empty = [Console_error missing_key_message, Exit 1]
   \<and> filter creates_listener_or_session (main Map.empty) = []"
  using missing_api_key_exits [of Map.empty] by (simp add: filter_empty_conv)

text \<open>
  Claim C10, as amended. update_webhook always issues one PUT to the path of the
  webhook, whose JSON body holds exactly the optional fields that were supplied; with
  none of \<open>url\<close>, \<open>events\<close>, \<open>description\<close> and \<open>status\<close> supplied the body is the
  empty object, and the call is neither skipped nor rejected locally. When the
  upstream response has a 2xx status and is a 204 or has a JSON body, the handler
  returns the success response of that body (of \<open>{ok: true}\<close> for a 204).
\<close>

theorem update_webhook_request:
  "sent (snd (handle (Update_webhook collection webhookId webhookUrl events description
                        webhookStatus) w)) =
     sent w @
     [(baseUrl (resolveEnv (env w)) @ ''/'' @ project (resolveEnv (env w)) @ ''/'' @ collection
         @ ''/_webhooks/'' @ webhookId,
       \<lparr>http_method = Some ''PUT'',
        headers = [(''Authorization'', ''Bearer '' @ apiKey (resolveEnv (env w))),
                   (''Content-Type'', ''application/json'')],
        body = Some (JObject (update_webhook_body webhookUrl events description webhookStatus))\<rparr>)]
   \<and> update_webhook_body None None None None = []
   \<and> map_of (update_webhook_body webhookUrl events description webhookStatus) =
       (\<lambda>k. if k = ''url'' then map_option JString webhookUrl
            else if k = ''events'' then map_option (\<lambda>x. JArray (map JString x)) events
            else if k = ''description'' then map_option JString description
            else if k = ''status'' then map_option JString webhookStatus
            else None)
   \<and> distinct (map fst (update_webhook_body webhookUrl events description webhookStatus))
   \<and> ((\<forall>url opts. network w url opts = Resolved r) \<and> ok r \<and> (status r = 204 \<or> json r = Inr v)
        \<longrightarrow> fst (handle (Update_webhook collection webhookId webhookUrl events description
                            webhookStatus) w)
            = Inr (success (Some (if status r = 204 then JObject [(''ok'', JBool True)] else v))))"
proof -
  have body: "map_of (update_webhook_body webhookUrl events description webhookStatus) =
       (\<lambda>k. if k = ''url'' then map_option JString webhookUrl
            else if k = ''events'' then map_option (\<lambda>x. JArray (map JString x)) events
            else if k = ''description'' then map_option JString description
            else if k = ''status'' then map_option JString webhookStatus
            else None)"
    by (cases webhookUrl; cases events; cases description; cases webhookStatus)
       (auto simp: update_webhook_body_def fun_eq_iff)
  have dist: "distinct (map fst (update_webhook_body webhookUrl events description webhookStatus))"
    by (cases webhookUrl; cases events; cases description; cases webhookStatus)
       (simp_all add: update_webhook_body_def)
  have res: "fst (handle (Update_webhook collection webhookId webhookUrl events description
                            webhookStatus) w)
            = Inr (success (Some (if status r = 204 then JObject [(''ok'', JBool True)] else v)))"
    if "\<forall>url opts. network w url opts = Resolved r" and "ok r" and "status r = 204 \<or> json r = Inr v"
    using that
    by (auto simp: fst_handle update_webhook_try_def Let_def fst_await webhookFetch_def fetch_def
        res_json_def e_bind_def return_success_def)
  show ?thesis
    using body dist res
    by (simp add: snd_handle update_webhook_try_def Let_def snd_await webhookFetch_sent
        update_webhook_body_def)
qed

theorem update_webhook_request_witness:
  "sent (snd (handle (Update_webhook ''users'' ''wh_1'' None None None None)
                (world_of sample_env
                   (Resolved \<lparr>status = 200, statusText = ''OK'',
                              json = Inr (JObject [(''id'', JString ''wh_1'')])\<rparr>)
                   (Inr None))))
     = [(''https://api.jsondb.cloud/test-project/users/_webhooks/wh_1'',
         \<lparr>http_method = Some ''PUT'',
          headers = [(''Authorization'', ''Bearer jdb_sk_test_abc''),
                     (''Content-Type'', ''application/json'')],
          body = Some (JObject [])\<rparr>)]
   \<and> fst (handle (Update_webhook ''users'' ''wh_1'' None None None None)
            (world_of sample_env
               (Resolved \<lparr>status = 200, statusText = ''OK'',
                          json = Inr (JObject [(''id'', JString ''wh_1'')])\<rparr>)
               (Inr None)))
     = Inr (success (Some (JObject [(''id'', JString ''wh_1'')])))"
  using update_webhook_request
          [of "''users''" "''wh_1''" None None None None
              "world_of sample_env
                 (Resolved \<lparr>status = 200, statusText = ''OK'',
                            json = Inr (JObject [(''id'', JString ''wh_1'')])\<rparr>)
                 (Inr None)"
              "\<lparr>status = 200, statusText = ''OK'', json = Inr (JObject [(''id'', JString ''wh_1'')])\<rparr>"
              "JObject [(''id'', JString ''wh_1'')]"]
  by (simp add: world_of_def ok_def resolveEnv_def sample_env_def str_or_def
      strip_trailing_slash_def)

text \<open>
  Claim C10 as stated fails: a 2xx response whose body is not JSON makes
  \<open>res.json()\<close> reject, and the handler returns the error UPDATE_WEBHOOK_FAILED.
\<close>

theorem update_webhook_counterexample:
  "fst (handle (Update_webhook ''users'' ''wh_1'' None None None None)
         (world_of sample_env
            (Resolved \<lparr>status = 200, statusText = ''OK'',
                       json = Inl ''Unexpected end of JSON input''\<rparr>)
            (Inr None)))
   = Inr (error ''UPDATE_WEBHOOK_FAILED'' (JString ''Unexpected end of JSON input'')
            ''Verify the collection name and webhook ID are correct.'')"
  by (simp add: fst_handle update_webhook_try_def update_webhook_catch_def Let_def fst_await
      webhookFetch_def fetch_def world_of_def ok_def res_json_def e_bind_def js_error_def
      return_error_or_def js_or_def)

end
